theory Spec2Isabelle
  imports Complex_Main "HOL-Library.AList"
begin

section \<open>The CRM sample service (crm\_sample.py)\<close>

text \<open>
  The service keeps three dictionaries (customers, products, service records) in one
  global object \<open>crm_data\<close> and exposes them through FastAPI handlers. Every handler
  is embedded as a function of the store: a reading handler returns its response, a
  writing handler returns its response together with the store after the call. A raised
  \<open>HTTPException\<close> is the \<open>Inl\<close> branch of the response.
\<close>

subsection \<open>Python values\<close>

text \<open>
  A Python \<open>str\<close> is a \<open>string\<close>. The source file is UTF-8; a literal with
  characters outside ASCII is given by its UTF-8 bytes. No operation of the service
  looks inside such a literal: they are only stored, copied and compared for equality.

  A \<open>date\<close> is its proleptic Gregorian ordinal (\<open>date.toordinal()\<close>): Python orders
  dates by ordinal, and \<open>(d1 - d2).days\<close> is the difference of the ordinals.
  \<open>date_of y m d\<close> is the constructor call \<open>date(y, m, d)\<close>.
\<close>

type_synonym date = int

definition is_leap :: "int \<Rightarrow> bool" where
  "is_leap y = (y mod 4 = 0 \<and> (y mod 100 \<noteq> 0 \<or> y mod 400 = 0))"

definition days_before_year :: "int \<Rightarrow> int" where
  "days_before_year y = (y - 1) * 365 + (y - 1) div 4 - (y - 1) div 100 + (y - 1) div 400"

definition days_before_month :: "int \<Rightarrow> nat \<Rightarrow> int" where
  "days_before_month y m =
     [0, 31, 59, 90, 120, 151, 181, 212, 243, 273, 304, 334] ! (m - 1)
       + (if 2 < m \<and> is_leap y then 1 else 0)"

definition date_of :: "int \<Rightarrow> nat \<Rightarrow> int \<Rightarrow> date" where
  "date_of y m d = days_before_year y + days_before_month y m + d"

text \<open>
  A \<open>datetime\<close> is built in the source as \<open>datetime(year, month, day, hour, minute)\<close>;
  the service only stores and copies such values.
\<close>

datatype datetime = Datetime int int int int int

text \<open>
  A \<open>dict\<close> keeps its entries in insertion order, and assigning to a key that is
  already present keeps the key's position: an association list, read with
  \<^const>\<open>map_of\<close> and written with \<^const>\<open>AList.update\<close>.
\<close>

type_synonym ('k, 'v) dict = "('k \<times> 'v) list"

abbreviation dict_get :: "('k, 'v) dict \<Rightarrow> 'k \<Rightarrow> 'v option" where
  "dict_get d k \<equiv> map_of d k"

abbreviation dict_set :: "('k, 'v) dict \<Rightarrow> 'k \<Rightarrow> 'v \<Rightarrow> ('k, 'v) dict" where
  "dict_set d k v \<equiv> AList.update k v d"

abbreviation dict_values :: "('k, 'v) dict \<Rightarrow> 'v list" where
  "dict_values d \<equiv> map snd d"

text \<open>
  Truth value of an \<open>Optional[str]\<close> in a condition: \<open>None\<close> and the empty string
  are false.
\<close>

definition truthy :: "string option \<Rightarrow> bool" where
  "truthy x = (case x of None \<Rightarrow> False | Some v \<Rightarrow> v \<noteq> [])"

subsection \<open>Data model\<close>

record Customer =
  customer_id :: string
  name :: string
  email :: string
  phone :: string
  address :: string
  registration_date :: date
  date_of_birth :: "date option"
  "notes" :: "string option"
  total_purchases :: int
  lifetime_value :: real
  support_cases_count :: int
  communication_preferences :: "string list"

record Product =
  product_id :: string
  serial_number :: string
  product_name :: string
  customer_id :: string
  purchase_date :: date
  warranty_end_date :: date
  warranty_type :: string
  status :: string

record ServiceRecord =
  record_id :: string
  serial_number :: string
  customer_id :: string
  service_date :: datetime
  service_type :: string
  description :: string
  technician :: string
  status :: string
  estimated_duration :: int
  actual_duration :: "int option"
  "notes" :: "string option"

text \<open>
  \<open>ServiceStatus\<close> is a \<open>str\<close>-mixin enumeration: a member compares equal to its
  string value and has the truth value of that string.
\<close>

datatype ServiceStatus = SCHEDULED | COMPLETED | CANCELLED

fun status_value :: "ServiceStatus \<Rightarrow> string" where
  "status_value SCHEDULED = ''scheduled''"
| "status_value COMPLETED = ''completed''"
| "status_value CANCELLED = ''cancelled''"

record WarrantyQuery =
  serial_number :: string
  customer_email :: "string option"

record ServiceRecordCreate =
  serial_number :: string
  service_type :: string
  description :: string
  technician :: string
  service_date :: datetime
  estimated_duration :: int

record ServiceRecordUpdate =
  service_date :: "datetime option"
  status :: "ServiceStatus option"
  actual_duration :: "int option"
  "notes" :: "string option"

record WarrantyResponse =
  product_name :: string
  serial_number :: string
  customer_name :: string
  purchase_date :: date
  warranty_end_date :: date
  warranty_type :: string
  status_text :: string

record CRMData =
  customers :: "(string, Customer) dict"
  products :: "(string, Product) dict"
  service_records :: "(string, ServiceRecord) dict"

text \<open>
  \<open>HTTPException(status_code, detail)\<close> as raised by the handlers; the validation
  error that pydantic makes of a \<open>ValueError\<close> raised while one field is validated;
  and the error of a request body, which collects the errors of its fields in the order
  of the fields and is answered with HTTP 422.
\<close>

datatype error =
  HTTPException nat string
| ValidationError string
| RequestValidationError "error list"

fun http_status :: "error \<Rightarrow> nat" where
  "http_status (HTTPException code detail) = code"
| "http_status (ValidationError msg) = 422"
| "http_status (RequestValidationError errors) = 422"

subsection \<open>Sample data (\<open>CRMData._initialize_sample_data\<close>)\<close>

definition name_CUST001 :: string where
  "name_CUST001 =
     [CHR 0xE5, CHR 0xBC, CHR 0xA0, CHR 0xE6, CHR 0x98, CHR 0x8E]"

definition address_CUST001 :: string where
  "address_CUST001 =
     [CHR 0xE5, CHR 0x8C, CHR 0x97, CHR 0xE4, CHR 0xBA, CHR 0xAC, CHR 0xE5, CHR 0xB8,
      CHR 0x82, CHR 0xE6, CHR 0x9C, CHR 0x9D, CHR 0xE9, CHR 0x98, CHR 0xB3, CHR 0xE5,
      CHR 0x8C, CHR 0xBA, CHR 0xE5, CHR 0xBB, CHR 0xBA, CHR 0xE5, CHR 0x9B, CHR 0xBD,
      CHR 0xE9, CHR 0x97, CHR 0xA8, CHR 0xE5, CHR 0xA4, CHR 0x96, CHR 0xE5, CHR 0xA4,
      CHR 0xA7, CHR 0xE8, CHR 0xA1, CHR 0x97, CHR 0x31, CHR 0xE5, CHR 0x8F, CHR 0xB7]"

definition notes_CUST001 :: string where
  "notes_CUST001 =
     [CHR 0xE4, CHR 0xBC, CHR 0x98, CHR 0xE8, CHR 0xB4, CHR 0xA8, CHR 0xE5, CHR 0xAE,
      CHR 0xA2, CHR 0xE6, CHR 0x88, CHR 0xB7, CHR 0xEF, CHR 0xBC, CHR 0x8C, CHR 0xE7,
      CHR 0xBB, CHR 0x8F, CHR 0xE5, CHR 0xB8, CHR 0xB8, CHR 0xE8, CHR 0xB4, CHR 0xAD,
      CHR 0xE4, CHR 0xB9, CHR 0xB0, CHR 0xE9, CHR 0xAB, CHR 0x98, CHR 0xE7, CHR 0xAB,
      CHR 0xAF, CHR 0xE4, CHR 0xBA, CHR 0xA7, CHR 0xE5, CHR 0x93, CHR 0x81]"

definition name_CUST002 :: string where
  "name_CUST002 =
     [CHR 0xE6, CHR 0x9D, CHR 0x8E, CHR 0xE5, CHR 0x8D, CHR 0x8E]"

definition address_CUST002 :: string where
  "address_CUST002 =
     [CHR 0xE4, CHR 0xB8, CHR 0x8A, CHR 0xE6, CHR 0xB5, CHR 0xB7, CHR 0xE5, CHR 0xB8,
      CHR 0x82, CHR 0xE6, CHR 0xB5, CHR 0xA6, CHR 0xE4, CHR 0xB8, CHR 0x9C, CHR 0xE6,
      CHR 0x96, CHR 0xB0, CHR 0xE5, CHR 0x8C, CHR 0xBA, CHR 0xE9, CHR 0x99, CHR 0x86,
      CHR 0xE5, CHR 0xAE, CHR 0xB6, CHR 0xE5, CHR 0x98, CHR 0xB4, CHR 0xE9, CHR 0x87,
      CHR 0x91, CHR 0xE8, CHR 0x9E, CHR 0x8D, CHR 0xE4, CHR 0xB8, CHR 0xAD, CHR 0xE5,
      CHR 0xBF, CHR 0x83]"

definition notes_CUST002 :: string where
  "notes_CUST002 =
     [CHR 0xE4, CHR 0xBC, CHR 0x81, CHR 0xE4, CHR 0xB8, CHR 0x9A, CHR 0xE5, CHR 0xAE,
      CHR 0xA2, CHR 0xE6, CHR 0x88, CHR 0xB7, CHR 0xEF, CHR 0xBC, CHR 0x8C, CHR 0xE6,
      CHR 0x89, CHR 0xB9, CHR 0xE9, CHR 0x87, CHR 0x8F, CHR 0xE9, CHR 0x87, CHR 0x87,
      CHR 0xE8, CHR 0xB4, CHR 0xAD]"

definition name_CUST003 :: string where
  "name_CUST003 =
     [CHR 0xE7, CHR 0x8E, CHR 0x8B, CHR 0xE8, CHR 0x8A, CHR 0xB3]"

definition address_CUST003 :: string where
  "address_CUST003 =
     [CHR 0xE5, CHR 0xB9, CHR 0xBF, CHR 0xE5, CHR 0xB7, CHR 0x9E, CHR 0xE5, CHR 0xB8,
      CHR 0x82, CHR 0xE5, CHR 0xA4, CHR 0xA9, CHR 0xE6, CHR 0xB2, CHR 0xB3, CHR 0xE5,
      CHR 0x8C, CHR 0xBA, CHR 0xE7, CHR 0x8F, CHR 0xA0, CHR 0xE6, CHR 0xB1, CHR 0x9F,
      CHR 0xE6, CHR 0x96, CHR 0xB0, CHR 0xE5, CHR 0x9F, CHR 0x8E]"

definition notes_CUST003 :: string where
  "notes_CUST003 =
     [CHR 0xE4, CHR 0xB8, CHR 0xAA, CHR 0xE4, CHR 0xBA, CHR 0xBA, CHR 0xE7, CHR 0x94,
      CHR 0xA8, CHR 0xE6, CHR 0x88, CHR 0xB7, CHR 0xEF, CHR 0xBC, CHR 0x8C, CHR 0xE5,
      CHR 0x81, CHR 0x8F, CHR 0xE5, CHR 0xA5, CHR 0xBD, CHR 0xE6, CHR 0x99, CHR 0xBA,
      CHR 0xE8, CHR 0x83, CHR 0xBD, CHR 0xE5, CHR 0xAE, CHR 0xB6, CHR 0xE5, CHR 0xB1,
      CHR 0x85, CHR 0xE4, CHR 0xBA, CHR 0xA7, CHR 0xE5, CHR 0x93, CHR 0x81]"

definition name_CUST004 :: string where
  "name_CUST004 =
     [CHR 0xE9, CHR 0x99, CHR 0x88, CHR 0xE5, CHR 0xBC, CHR 0xBA]"

definition address_CUST004 :: string where
  "address_CUST004 =
     [CHR 0xE6, CHR 0xB7, CHR 0xB1, CHR 0xE5, CHR 0x9C, CHR 0xB3, CHR 0xE5, CHR 0xB8,
      CHR 0x82, CHR 0xE5, CHR 0x8D, CHR 0x97, CHR 0xE5, CHR 0xB1, CHR 0xB1, CHR 0xE5,
      CHR 0x8C, CHR 0xBA, CHR 0xE7, CHR 0xA7, CHR 0x91, CHR 0xE6, CHR 0x8A, CHR 0x80,
      CHR 0xE5, CHR 0x9B, CHR 0xAD]"

definition notes_CUST004 :: string where
  "notes_CUST004 =
     [CHR 0xE7, CHR 0xA7, CHR 0x91, CHR 0xE6, CHR 0x8A, CHR 0x80, CHR 0xE7, CHR 0x88,
      CHR 0xB1, CHR 0xE5, CHR 0xA5, CHR 0xBD, CHR 0xE8, CHR 0x80, CHR 0x85, CHR 0xEF,
      CHR 0xBC, CHR 0x8C, CHR 0xE5, CHR 0x96, CHR 0x9C, CHR 0xE6, CHR 0xAC, CHR 0xA2,
      CHR 0xE6, CHR 0x9C, CHR 0x80, CHR 0xE6, CHR 0x96, CHR 0xB0, CHR 0xE4, CHR 0xBA,
      CHR 0xA7, CHR 0xE5, CHR 0x93, CHR 0x81]"

definition name_CUST005 :: string where
  "name_CUST005 =
     [CHR 0xE5, CHR 0x88, CHR 0x98, CHR 0xE5, CHR 0xA9, CHR 0xB7]"

definition address_CUST005 :: string where
  "address_CUST005 =
     [CHR 0xE6, CHR 0x9D, CHR 0xAD, CHR 0xE5, CHR 0xB7, CHR 0x9E, CHR 0xE5, CHR 0xB8,
      CHR 0x82, CHR 0xE8, CHR 0xA5, CHR 0xBF, CHR 0xE6, CHR 0xB9, CHR 0x96, CHR 0xE5,
      CHR 0x8C, CHR 0xBA, CHR 0xE6, CHR 0x96, CHR 0x87, CHR 0xE4, CHR 0xB8, CHR 0x89,
      CHR 0xE8, CHR 0xB7, CHR 0xAF]"

definition notes_CUST005 :: string where
  "notes_CUST005 =
     [CHR 0xE7, CHR 0x94, CHR 0xB5, CHR 0xE5, CHR 0x95, CHR 0x86, CHR 0xE5, CHR 0xAE,
      CHR 0xA2, CHR 0xE6, CHR 0x88, CHR 0xB7, CHR 0xEF, CHR 0xBC, CHR 0x8C, CHR 0xE7,
      CHR 0xBB, CHR 0x8F, CHR 0xE5, CHR 0xB8, CHR 0xB8, CHR 0xE5, CHR 0x9C, CHR 0xA8,
      CHR 0xE7, CHR 0xBA, CHR 0xBF, CHR 0xE8, CHR 0xB4, CHR 0xAD, CHR 0xE7, CHR 0x89,
      CHR 0xA9]"

definition product_name_PROD001 :: string where
  "product_name_PROD001 =
     [CHR 0xE6, CHR 0x99, CHR 0xBA, CHR 0xE8, CHR 0x83, CHR 0xBD, CHR 0xE7, CHR 0x94,
      CHR 0xB5, CHR 0xE8, CHR 0xA7, CHR 0x86, CHR 0x20, CHR 0x36, CHR 0x35, CHR 0xE5,
      CHR 0xAF, CHR 0xB8]"

definition product_name_PROD002 :: string where
  "product_name_PROD002 =
     [CHR 0xE6, CHR 0x99, CHR 0xBA, CHR 0xE8, CHR 0x83, CHR 0xBD, CHR 0xE9, CHR 0x9F,
      CHR 0xB3, CHR 0xE7, CHR 0xAE, CHR 0xB1, CHR 0x20, CHR 0x50, CHR 0x72, CHR 0x6F]"

definition product_name_PROD003 :: string where
  "product_name_PROD003 =
     [CHR 0xE7, CHR 0xAC, CHR 0x94, CHR 0xE8, CHR 0xAE, CHR 0xB0, CHR 0xE6, CHR 0x9C,
      CHR 0xAC, CHR 0xE7, CHR 0x94, CHR 0xB5, CHR 0xE8, CHR 0x84, CHR 0x91, CHR 0x20,
      CHR 0x58, CHR 0x31]"

definition product_name_PROD004 :: string where
  "product_name_PROD004 =
     [CHR 0xE5, CHR 0xB9, CHR 0xB3, CHR 0xE6, CHR 0x9D, CHR 0xBF, CHR 0xE7, CHR 0x94,
      CHR 0xB5, CHR 0xE8, CHR 0x84, CHR 0x91, CHR 0x20, CHR 0x54, CHR 0x38]"

definition product_name_PROD005 :: string where
  "product_name_PROD005 =
     [CHR 0xE6, CHR 0x99, CHR 0xBA, CHR 0xE8, CHR 0x83, CHR 0xBD, CHR 0xE6, CHR 0x89,
      CHR 0x8B, CHR 0xE8, CHR 0xA1, CHR 0xA8, CHR 0x20, CHR 0x53, CHR 0x33]"

definition product_name_PROD006 :: string where
  "product_name_PROD006 =
     [CHR 0xE6, CHR 0x97, CHR 0xA0, CHR 0xE7, CHR 0xBA, CHR 0xBF, CHR 0xE8, CHR 0x80,
      CHR 0xB3, CHR 0xE6, CHR 0x9C, CHR 0xBA, CHR 0x20, CHR 0x45, CHR 0x32]"

definition product_name_PROD007 :: string where
  "product_name_PROD007 =
     [CHR 0xE6, CHR 0xB8, CHR 0xB8, CHR 0xE6, CHR 0x88, CHR 0x8F, CHR 0xE4, CHR 0xB8,
      CHR 0xBB, CHR 0xE6, CHR 0x9C, CHR 0xBA, CHR 0x20, CHR 0x47, CHR 0x35]"

definition product_name_PROD008 :: string where
  "product_name_PROD008 =
     [CHR 0x56, CHR 0x52, CHR 0xE5, CHR 0xA4, CHR 0xB4, CHR 0xE7, CHR 0x9B, CHR 0x94,
      CHR 0x20, CHR 0x56, CHR 0x32]"

definition product_name_PROD009 :: string where
  "product_name_PROD009 =
     [CHR 0xE6, CHR 0x95, CHR 0xB0, CHR 0xE7, CHR 0xA0, CHR 0x81, CHR 0xE7, CHR 0x9B,
      CHR 0xB8, CHR 0xE6, CHR 0x9C, CHR 0xBA, CHR 0x20, CHR 0x43, CHR 0x39]"

definition product_name_PROD010 :: string where
  "product_name_PROD010 =
     [CHR 0xE6, CHR 0x89, CHR 0x93, CHR 0xE5, CHR 0x8D, CHR 0xB0, CHR 0xE6, CHR 0x9C,
      CHR 0xBA, CHR 0x20, CHR 0x50, CHR 0x33]"

definition service_type_SRV001 :: string where
  "service_type_SRV001 =
     [CHR 0xE5, CHR 0xB1, CHR 0x8F, CHR 0xE5, CHR 0xB9, CHR 0x95, CHR 0xE7, CHR 0xBB,
      CHR 0xB4, CHR 0xE4, CHR 0xBF, CHR 0xAE]"

definition description_SRV001 :: string where
  "description_SRV001 =
     [CHR 0xE5, CHR 0xB1, CHR 0x8F, CHR 0xE5, CHR 0xB9, CHR 0x95, CHR 0xE5, CHR 0x87,
      CHR 0xBA, CHR 0xE7, CHR 0x8E, CHR 0xB0, CHR 0xE7, CHR 0xAB, CHR 0x96, CHR 0xE7,
      CHR 0xBA, CHR 0xBF]"

definition technician_SRV001 :: string where
  "technician_SRV001 =
     [CHR 0xE7, CHR 0x8E, CHR 0x8B, CHR 0xE5, CHR 0xB8, CHR 0x88, CHR 0xE5, CHR 0x82,
      CHR 0x85]"

definition notes_SRV001 :: string where
  "notes_SRV001 =
     [CHR 0xE6, CHR 0x9B, CHR 0xB4, CHR 0xE6, CHR 0x8D, CHR 0xA2, CHR 0xE5, CHR 0xB1,
      CHR 0x8F, CHR 0xE5, CHR 0xB9, CHR 0x95, CHR 0xE9, CHR 0x9D, CHR 0xA2, CHR 0xE6,
      CHR 0x9D, CHR 0xBF, CHR 0xEF, CHR 0xBC, CHR 0x8C, CHR 0xE6, CHR 0xB5, CHR 0x8B,
      CHR 0xE8, CHR 0xAF, CHR 0x95, CHR 0xE6, CHR 0xAD, CHR 0xA3, CHR 0xE5, CHR 0xB8,
      CHR 0xB8]"

definition service_type_SRV002 :: string where
  "service_type_SRV002 =
     [CHR 0xE7, CHR 0xB3, CHR 0xBB, CHR 0xE7, CHR 0xBB, CHR 0x9F, CHR 0xE5, CHR 0x8D,
      CHR 0x87, CHR 0xE7, CHR 0xBA, CHR 0xA7]"

definition description_SRV002 :: string where
  "description_SRV002 =
     [CHR 0xE6, CHR 0x93, CHR 0x8D, CHR 0xE4, CHR 0xBD, CHR 0x9C, CHR 0xE7, CHR 0xB3,
      CHR 0xBB, CHR 0xE7, CHR 0xBB, CHR 0x9F, CHR 0xE5, CHR 0x8D, CHR 0x87, CHR 0xE7,
      CHR 0xBA, CHR 0xA7, CHR 0xE6, CHR 0x9C, CHR 0x8D, CHR 0xE5, CHR 0x8A, CHR 0xA1]"

definition technician_SRV002 :: string where
  "technician_SRV002 =
     [CHR 0xE6, CHR 0x9D, CHR 0x8E, CHR 0xE5, CHR 0xB7, CHR 0xA5, CHR 0xE7, CHR 0xA8,
      CHR 0x8B, CHR 0xE5, CHR 0xB8, CHR 0x88]"

definition status_text_expired :: string where
  "status_text_expired =
     [CHR 0xE4, CHR 0xBF, CHR 0x9D, CHR 0xE4, CHR 0xBF, CHR 0xAE, CHR 0xE5, CHR 0xB7,
      CHR 0xB2, CHR 0xE8, CHR 0xBF, CHR 0x87, CHR 0xE6, CHR 0x9C, CHR 0x9F]"

definition status_text_expiring :: string where
  "status_text_expiring =
     [CHR 0xE4, CHR 0xBF, CHR 0x9D, CHR 0xE4, CHR 0xBF, CHR 0xAE, CHR 0xE5, CHR 0x8D,
      CHR 0xB3, CHR 0xE5, CHR 0xB0, CHR 0x86, CHR 0xE5, CHR 0x88, CHR 0xB0, CHR 0xE6,
      CHR 0x9C, CHR 0x9F]"

definition status_text_valid :: string where
  "status_text_valid =
     [CHR 0xE4, CHR 0xBF, CHR 0x9D, CHR 0xE4, CHR 0xBF, CHR 0xAE, CHR 0xE6, CHR 0x9C,
      CHR 0x89, CHR 0xE6, CHR 0x95, CHR 0x88]"

definition customer_CUST001 :: Customer where
  "customer_CUST001 =
    \<lparr>Customer.customer_id = ''CUST001'', name = name_CUST001,
     email = ''zhang.ming@example.com'', phone = ''+86-138-0011-2233'',
     address = address_CUST001,
     registration_date = (date_of 2022 3 15), date_of_birth = Some (date_of 1985 8 20),
     Customer.notes = Some notes_CUST001,
     total_purchases = 3, lifetime_value = 28500, support_cases_count = 2,
     communication_preferences = [''email'', ''sms'']\<rparr>"

definition customer_CUST002 :: Customer where
  "customer_CUST002 =
    \<lparr>Customer.customer_id = ''CUST002'', name = name_CUST002,
     email = ''li.hua@example.com'', phone = ''+86-139-0022-3344'',
     address = address_CUST002,
     registration_date = (date_of 2023 1 10), date_of_birth = Some (date_of 1990 5 15),
     Customer.notes = Some notes_CUST002,
     total_purchases = 5, lifetime_value = 42000, support_cases_count = 1,
     communication_preferences = [''email'', ''wechat'']\<rparr>"

definition customer_CUST003 :: Customer where
  "customer_CUST003 =
    \<lparr>Customer.customer_id = ''CUST003'', name = name_CUST003,
     email = ''wang.fang@example.com'', phone = ''+86-137-0033-4455'',
     address = address_CUST003,
     registration_date = (date_of 2022 11 5), date_of_birth = Some (date_of 1988 12 3),
     Customer.notes = Some notes_CUST003,
     total_purchases = 2, lifetime_value = 12800, support_cases_count = 0,
     communication_preferences = [''sms'', ''phone'']\<rparr>"

definition customer_CUST004 :: Customer where
  "customer_CUST004 =
    \<lparr>Customer.customer_id = ''CUST004'', name = name_CUST004,
     email = ''chen.qiang@example.com'', phone = ''+86-136-0044-5566'',
     address = address_CUST004,
     registration_date = (date_of 2023 6 20), date_of_birth = Some (date_of 1992 7 18),
     Customer.notes = Some notes_CUST004,
     total_purchases = 4, lifetime_value = 35600, support_cases_count = 3,
     communication_preferences = [''email'', ''app'']\<rparr>"

definition customer_CUST005 :: Customer where
  "customer_CUST005 =
    \<lparr>Customer.customer_id = ''CUST005'', name = name_CUST005,
     email = ''liu.ting@example.com'', phone = ''+86-135-0055-6677'',
     address = address_CUST005,
     registration_date = (date_of 2022 8 12), date_of_birth = Some (date_of 1987 3 25),
     Customer.notes = Some notes_CUST005,
     total_purchases = 3, lifetime_value = 19200, support_cases_count = 1,
     communication_preferences = [''email'', ''sms'', ''wechat'']\<rparr>"

definition customers_data :: "(string, Customer) dict" where
  "customers_data =
    [(''CUST001'', customer_CUST001),
     (''CUST002'', customer_CUST002),
     (''CUST003'', customer_CUST003),
     (''CUST004'', customer_CUST004),
     (''CUST005'', customer_CUST005)]"

definition product_PROD001 :: Product where
  "product_PROD001 =
    \<lparr>product_id = ''PROD001'', Product.serial_number = ''SN20240001'',
     product_name = product_name_PROD001, Product.customer_id = ''CUST001'',
     purchase_date = (date_of 2023 12 10), warranty_end_date = (date_of 2025 12 10),
     warranty_type = ''standard'', Product.status = ''active''\<rparr>"

definition product_PROD002 :: Product where
  "product_PROD002 =
    \<lparr>product_id = ''PROD002'', Product.serial_number = ''SN20240002'',
     product_name = product_name_PROD002, Product.customer_id = ''CUST001'',
     purchase_date = (date_of 2023 8 15), warranty_end_date = (date_of 2024 8 15),
     warranty_type = ''extended'', Product.status = ''active''\<rparr>"

definition product_PROD003 :: Product where
  "product_PROD003 =
    \<lparr>product_id = ''PROD003'', Product.serial_number = ''SN20240003'',
     product_name = product_name_PROD003, Product.customer_id = ''CUST002'',
     purchase_date = (date_of 2024 1 20), warranty_end_date = (date_of 2025 1 20),
     warranty_type = ''premium'', Product.status = ''active''\<rparr>"

definition product_PROD004 :: Product where
  "product_PROD004 =
    \<lparr>product_id = ''PROD004'', Product.serial_number = ''SN20240004'',
     product_name = product_name_PROD004, Product.customer_id = ''CUST002'',
     purchase_date = (date_of 2023 11 5), warranty_end_date = (date_of 2024 11 5),
     warranty_type = ''standard'', Product.status = ''active''\<rparr>"

definition product_PROD005 :: Product where
  "product_PROD005 =
    \<lparr>product_id = ''PROD005'', Product.serial_number = ''SN20240005'',
     product_name = product_name_PROD005, Product.customer_id = ''CUST003'',
     purchase_date = (date_of 2023 9 18), warranty_end_date = (date_of 2024 9 18),
     warranty_type = ''standard'', Product.status = ''active''\<rparr>"

definition product_PROD006 :: Product where
  "product_PROD006 =
    \<lparr>product_id = ''PROD006'', Product.serial_number = ''SN20240006'',
     product_name = product_name_PROD006, Product.customer_id = ''CUST003'',
     purchase_date = (date_of 2023 6 22), warranty_end_date = (date_of 2024 6 22),
     warranty_type = ''standard'', Product.status = ''expired''\<rparr>"

definition product_PROD007 :: Product where
  "product_PROD007 =
    \<lparr>product_id = ''PROD007'', Product.serial_number = ''SN20240007'',
     product_name = product_name_PROD007, Product.customer_id = ''CUST004'',
     purchase_date = (date_of 2024 2 14), warranty_end_date = (date_of 2025 2 14),
     warranty_type = ''extended'', Product.status = ''active''\<rparr>"

definition product_PROD008 :: Product where
  "product_PROD008 =
    \<lparr>product_id = ''PROD008'', Product.serial_number = ''SN20240008'',
     product_name = product_name_PROD008, Product.customer_id = ''CUST004'',
     purchase_date = (date_of 2023 10 30), warranty_end_date = (date_of 2024 10 30),
     warranty_type = ''standard'', Product.status = ''active''\<rparr>"

definition product_PROD009 :: Product where
  "product_PROD009 =
    \<lparr>product_id = ''PROD009'', Product.serial_number = ''SN20240009'',
     product_name = product_name_PROD009, Product.customer_id = ''CUST005'',
     purchase_date = (date_of 2023 7 8), warranty_end_date = (date_of 2024 7 8),
     warranty_type = ''standard'', Product.status = ''active''\<rparr>"

definition product_PROD010 :: Product where
  "product_PROD010 =
    \<lparr>product_id = ''PROD010'', Product.serial_number = ''SN20240010'',
     product_name = product_name_PROD010, Product.customer_id = ''CUST005'',
     purchase_date = (date_of 2023 4 12), warranty_end_date = (date_of 2024 4 12),
     warranty_type = ''extended'', Product.status = ''active''\<rparr>"

definition products_data :: "(string, Product) dict" where
  "products_data =
    [(''SN20240001'', product_PROD001),
     (''SN20240002'', product_PROD002),
     (''SN20240003'', product_PROD003),
     (''SN20240004'', product_PROD004),
     (''SN20240005'', product_PROD005),
     (''SN20240006'', product_PROD006),
     (''SN20240007'', product_PROD007),
     (''SN20240008'', product_PROD008),
     (''SN20240009'', product_PROD009),
     (''SN20240010'', product_PROD010)]"

definition record_SRV001 :: ServiceRecord where
  "record_SRV001 =
    \<lparr>record_id = ''SRV001'', ServiceRecord.serial_number = ''SN20240001'',
     ServiceRecord.customer_id = ''CUST001'', ServiceRecord.service_date = (Datetime 2024 1 15 10 0),
     ServiceRecord.service_type = service_type_SRV001, ServiceRecord.description = description_SRV001,
     ServiceRecord.technician = technician_SRV001, ServiceRecord.status = ''completed'',
     ServiceRecord.estimated_duration = 120, ServiceRecord.actual_duration = Some 110,
     ServiceRecord.notes = Some notes_SRV001\<rparr>"

definition record_SRV002 :: ServiceRecord where
  "record_SRV002 =
    \<lparr>record_id = ''SRV002'', ServiceRecord.serial_number = ''SN20240003'',
     ServiceRecord.customer_id = ''CUST002'', ServiceRecord.service_date = (Datetime 2024 3 20 14 30),
     ServiceRecord.service_type = service_type_SRV002, ServiceRecord.description = description_SRV002,
     ServiceRecord.technician = technician_SRV002, ServiceRecord.status = ''scheduled'',
     ServiceRecord.estimated_duration = 60, ServiceRecord.actual_duration = None,
     ServiceRecord.notes = None\<rparr>"

definition service_records_data :: "(string, ServiceRecord) dict" where
  "service_records_data =
    [(''SRV001'', record_SRV001),
     (''SRV002'', record_SRV002)]"

definition crm_data :: CRMData where
  "crm_data = \<lparr>customers = customers_data, products = products_data,
                 service_records = service_records_data\<rparr>"

subsection \<open>Request validation (\<open>WarrantyQuery.validate_serial_number\<close>)\<close>

text \<open>
  \<open>re.match(r'^[A-Z0-9]{8,20}$', v)\<close>: the match starts at the beginning of \<open>v\<close>,
  takes \<open>n\<close> characters of the class \<open>[A-Z0-9]\<close> for some \<open>n\<close> from 8 to 20, and
  then needs \<open>$\<close> to hold. Without the MULTILINE flag, \<open>$\<close> holds at the end of the
  string and also just before a newline that is the last character of the string.
\<close>

definition in_class_A_Z_0_9 :: "char \<Rightarrow> bool" where
  "in_class_A_Z_0_9 c =
     ((65 \<le> (of_char c :: nat) \<and> (of_char c :: nat) \<le> 90)
      \<or> (48 \<le> (of_char c :: nat) \<and> (of_char c :: nat) \<le> 57))"

definition at_dollar :: "string \<Rightarrow> bool" where
  "at_dollar rest = (rest = [] \<or> rest = [CHR 0x0A])"

definition re_match_serial :: "string \<Rightarrow> bool" where
  "re_match_serial v =
     list_ex (\<lambda>n. n \<le> length v \<and> list_all in_class_A_Z_0_9 (take n v) \<and> at_dollar (drop n v))
       [8 ..< 21]"

definition validate_serial_number :: "string \<Rightarrow> error + string" where
  "validate_serial_number v =
     (if \<not> re_match_serial v
      then Inl (ValidationError ''Serial number must be 8-20 alphanumeric characters'')
      else Inr v)"

text \<open>
  \<open>customer_email\<close> is an \<open>Optional[EmailStr]\<close>. \<open>EmailStr\<close> is pydantic's type: it
  hands the string to the e-mail validation library (without the deliverability check),
  rejects what the library rejects and keeps the library's normalised form of the
  address. That step is not code of the service; the functions below take it as the
  parameter \<open>email_str\<close>, which answers \<open>Inl\<close> for a rejected string and \<open>Inr\<close> of
  the normalised address otherwise. \<open>None\<close> (the field left out, or \<open>null\<close>) is not
  validated.
\<close>

definition validate_customer_email ::
  "(string \<Rightarrow> error + string) \<Rightarrow> string option \<Rightarrow> error + string option" where
  "validate_customer_email email_str em =
     (case em of
        None \<Rightarrow> Inr None
      | Some raw \<Rightarrow> (case email_str raw of Inl e \<Rightarrow> Inl e | Inr v \<Rightarrow> Inr (Some v)))"

text \<open>
  The body of \<open>POST /warranty/query\<close> is parsed into a \<open>WarrantyQuery\<close> before the
  handler runs: both fields are validated, in the order of their declaration, and the
  errors of all failing fields are reported together.
\<close>

definition parse_WarrantyQuery ::
  "(string \<Rightarrow> error + string) \<Rightarrow> string \<Rightarrow> string option \<Rightarrow> error + WarrantyQuery" where
  "parse_WarrantyQuery email_str sn em =
     (case (validate_serial_number sn, validate_customer_email email_str em) of
        (Inr v, Inr e) \<Rightarrow> Inr \<lparr>WarrantyQuery.serial_number = v, customer_email = e\<rparr>
      | (Inl a, Inr e) \<Rightarrow> Inl (RequestValidationError [a])
      | (Inr v, Inl b) \<Rightarrow> Inl (RequestValidationError [b])
      | (Inl a, Inl b) \<Rightarrow> Inl (RequestValidationError [a, b]))"

text \<open>
  For examples, the \<open>EmailStr\<close> step on plain addresses. An address is plain when it
  has at most 254 characters, exactly one \<open>@\<close>, a local part of at most 64 characters made of ASCII letters and
  digits with single dots between them, and a domain of at most 253 characters made of
  two or more labels of ASCII letters and digits (each at most 63 characters) with dots
  between them, the last label being \<open>com\<close>, \<open>net\<close> or \<open>org\<close> in any letter case.
  The normalised form of a plain address is the address with its domain in lower case;
  the local part keeps its case. \<open>EmailStr_plain\<close> rejects every string that is not a
  plain address. The library accepts more than the plain addresses (display names,
  blanks around the address, further characters, other top-level domains); nothing below
  uses \<open>EmailStr_plain\<close> on such a string, and the properties of the handlers are
  proved for every \<open>email_str\<close>.
\<close>

fun split_on :: "char \<Rightarrow> string \<Rightarrow> string list" where
  "split_on c [] = [[]]"
| "split_on c (x # xs) =
     (if x = c then [] # split_on c xs
      else (case split_on c xs of [] \<Rightarrow> [[x]] | l # ls \<Rightarrow> (x # l) # ls))"

definition is_upper :: "char \<Rightarrow> bool" where
  "is_upper c = (65 \<le> (of_char c :: nat) \<and> (of_char c :: nat) \<le> 90)"

definition is_letter_or_digit :: "char \<Rightarrow> bool" where
  "is_letter_or_digit c =
     (is_upper c
      \<or> (97 \<le> (of_char c :: nat) \<and> (of_char c :: nat) \<le> 122)
      \<or> (48 \<le> (of_char c :: nat) \<and> (of_char c :: nat) \<le> 57))"

definition ascii_lower :: "char \<Rightarrow> char" where
  "ascii_lower c =
     (case map_of (zip ''ABCDEFGHIJKLMNOPQRSTUVWXYZ'' ''abcdefghijklmnopqrstuvwxyz'') c of
        None \<Rightarrow> c
      | Some l \<Rightarrow> l)"

definition plain_labels :: "string \<Rightarrow> bool" where
  "plain_labels part =
     list_all (\<lambda>l. l \<noteq> [] \<and> length l \<le> 63 \<and> list_all is_letter_or_digit l)
       (split_on CHR ''.'' part)"

definition plain_local_part :: "string \<Rightarrow> bool" where
  "plain_local_part l = (length l \<le> 64 \<and> plain_labels l)"

definition plain_domain :: "string \<Rightarrow> bool" where
  "plain_domain d =
     (length d \<le> 253 \<and> plain_labels d \<and> 2 \<le> length (split_on CHR ''.'' d)
      \<and> map ascii_lower (last (split_on CHR ''.'' d)) \<in> set [''com'', ''net'', ''org''])"

definition EmailStr_plain :: "string \<Rightarrow> error + string" where
  "EmailStr_plain raw =
     (case split_on CHR ''@'' raw of
        [l, d] \<Rightarrow>
          if length raw \<le> 254 \<and> plain_local_part l \<and> plain_domain d
          then Inr (l @ ''@'' @ map ascii_lower d)
          else Inl (ValidationError ''value is not a valid email address'')
      | _ \<Rightarrow> Inl (ValidationError ''value is not a valid email address''))"

subsection \<open>Handlers\<close>

definition get_customer_by_id :: "CRMData \<Rightarrow> string \<Rightarrow> error + Customer" where
  "get_customer_by_id s cid =
     (case dict_get (customers s) cid of
        None \<Rightarrow> Inl (HTTPException 404 ''Customer not found'')
      | Some customer \<Rightarrow> Inr customer)"

definition get_customer_purchases :: "CRMData \<Rightarrow> string \<Rightarrow> error + Product list" where
  "get_customer_purchases s cid =
     (let purchases = [product \<leftarrow> dict_values (products s). Product.customer_id product = cid]
      in if purchases = []
         then Inl (HTTPException 404 ''No purchases found for this customer'')
         else Inr purchases)"

definition warranty_status_text :: "date \<Rightarrow> date \<Rightarrow> string" where
  "warranty_status_text end_date current_date =
     (if end_date < current_date then status_text_expired
      else if end_date - current_date \<le> 30 then status_text_expiring
      else status_text_valid)"

definition query_warranty :: "CRMData \<Rightarrow> date \<Rightarrow> WarrantyQuery \<Rightarrow> error + WarrantyResponse" where
  "query_warranty s current_date query =
     (case dict_get (products s) (WarrantyQuery.serial_number query) of
        None \<Rightarrow> Inl (HTTPException 404 ''Product not found'')
      | Some product \<Rightarrow>
          if truthy (customer_email query) \<and>
             (case dict_get (customers s) (Product.customer_id product) of
                None \<Rightarrow> True
              | Some customer \<Rightarrow> Some (email customer) \<noteq> customer_email query)
          then Inl (HTTPException 403 ''Customer email verification failed'')
          else
            (case dict_get (customers s) (Product.customer_id product) of
               None \<Rightarrow> Inl (HTTPException 404 ''Customer not found'')
             | Some customer \<Rightarrow>
                 Inr \<lparr>WarrantyResponse.product_name = Product.product_name product,
                      WarrantyResponse.serial_number = Product.serial_number product,
                      customer_name = name customer,
                      WarrantyResponse.purchase_date = Product.purchase_date product,
                      WarrantyResponse.warranty_end_date = Product.warranty_end_date product,
                      WarrantyResponse.warranty_type = Product.warranty_type product,
                      status_text =
                        warranty_status_text (Product.warranty_end_date product) current_date\<rparr>))"

definition post_warranty_query ::
  "(string \<Rightarrow> error + string) \<Rightarrow> CRMData \<Rightarrow> date \<Rightarrow> string \<Rightarrow> string option \<Rightarrow>
   error + WarrantyResponse" where
  "post_warranty_query email_str s current_date sn em =
     (case parse_WarrantyQuery email_str sn em of
        Inl e \<Rightarrow> Inl e
      | Inr query \<Rightarrow> query_warranty s current_date query)"

text \<open>
  \<open>f"SRV{n:03d}"\<close>: the decimal digits of \<open>n\<close>, padded with zeros on the left to a
  width of at least three.
\<close>

definition digit_char :: "nat \<Rightarrow> char" where
  "digit_char d = ''0123456789'' ! d"

fun decimal :: "nat \<Rightarrow> string" where
  "decimal n = (if n < 10 then [digit_char n] else decimal (n div 10) @ [digit_char (n mod 10)])"

declare decimal.simps [simp del]

definition format_03d :: "nat \<Rightarrow> string" where
  "format_03d n = replicate (3 - length (decimal n)) CHR ''0'' @ decimal n"

definition create_service_record ::
  "CRMData \<Rightarrow> ServiceRecordCreate \<Rightarrow> (error + ServiceRecord) \<times> CRMData" where
  "create_service_record s req =
     (case dict_get (products s) (ServiceRecordCreate.serial_number req) of
        None \<Rightarrow> (Inl (HTTPException 404 ''Product not found''), s)
      | Some product \<Rightarrow>
          let rid = ''SRV'' @ format_03d (length (service_records s) + 1);
              service_record =
                \<lparr>record_id = rid,
                 ServiceRecord.serial_number = ServiceRecordCreate.serial_number req,
                 ServiceRecord.customer_id = Product.customer_id product,
                 ServiceRecord.service_date = ServiceRecordCreate.service_date req,
                 ServiceRecord.service_type = ServiceRecordCreate.service_type req,
                 ServiceRecord.description = ServiceRecordCreate.description req,
                 ServiceRecord.technician = ServiceRecordCreate.technician req,
                 ServiceRecord.status = ''scheduled'',
                 ServiceRecord.estimated_duration = ServiceRecordCreate.estimated_duration req,
                 ServiceRecord.actual_duration = None,
                 ServiceRecord.notes = None\<rparr>
          in (Inr service_record,
              s\<lparr>service_records := dict_set (service_records s) rid service_record\<rparr>))"

text \<open>The store after \<open>k\<close> calls of \<open>create_service_record\<close> with the same request.\<close>

fun create_many :: "nat \<Rightarrow> ServiceRecordCreate \<Rightarrow> CRMData \<Rightarrow> CRMData" where
  "create_many 0 req s = s"
| "create_many (Suc k) req s = snd (create_service_record (create_many k req s) req)"

definition sample_create :: ServiceRecordCreate where
  "sample_create =
     \<lparr>ServiceRecordCreate.serial_number = ''SN20240001'',
      ServiceRecordCreate.service_type = ''repair'',
      ServiceRecordCreate.description = ''no picture'',
      ServiceRecordCreate.technician = ''Wang'',
      ServiceRecordCreate.service_date = Datetime 2025 1 2 9 30,
      ServiceRecordCreate.estimated_duration = 90\<rparr>"

text \<open>
  The loop of \<open>get_service_records\<close>: each \<open>continue\<close> skips the record, the last
  line appends it to \<open>filtered_records\<close>.
\<close>

fun filter_loop ::
  "string option \<Rightarrow> string option \<Rightarrow> ServiceStatus option \<Rightarrow>
   ServiceRecord list \<Rightarrow> ServiceRecord list \<Rightarrow> ServiceRecord list" where
  "filter_loop sn cid st [] filtered_records = filtered_records"
| "filter_loop sn cid st (r # records) filtered_records =
     (if truthy sn \<and> Some (ServiceRecord.serial_number r) \<noteq> sn
        then filter_loop sn cid st records filtered_records
      else if truthy cid \<and> Some (ServiceRecord.customer_id r) \<noteq> cid
        then filter_loop sn cid st records filtered_records
      else if truthy (map_option status_value st)
              \<and> Some (ServiceRecord.status r) \<noteq> map_option status_value st
        then filter_loop sn cid st records filtered_records
      else filter_loop sn cid st records (filtered_records @ [r]))"

definition get_service_records ::
  "CRMData \<Rightarrow> string option \<Rightarrow> string option \<Rightarrow> ServiceStatus option \<Rightarrow>
   error + ServiceRecord list" where
  "get_service_records s sn cid st =
     Inr (filter_loop sn cid st (dict_values (service_records s)) [])"

definition update_service_record ::
  "CRMData \<Rightarrow> string \<Rightarrow> ServiceRecordUpdate \<Rightarrow> (error + ServiceRecord) \<times> CRMData" where
  "update_service_record s rid upd =
     (case dict_get (service_records s) rid of
        None \<Rightarrow> (Inl (HTTPException 404 ''Service record not found''), s)
      | Some r0 \<Rightarrow>
          let r1 = (case ServiceRecordUpdate.service_date upd of
                      None \<Rightarrow> r0 | Some d \<Rightarrow> r0\<lparr>ServiceRecord.service_date := d\<rparr>);
              r2 = (case ServiceRecordUpdate.status upd of
                      None \<Rightarrow> r1 | Some st \<Rightarrow> r1\<lparr>ServiceRecord.status := status_value st\<rparr>);
              r3 = (case ServiceRecordUpdate.actual_duration upd of
                      None \<Rightarrow> r2 | Some a \<Rightarrow> r2\<lparr>ServiceRecord.actual_duration := Some a\<rparr>);
              r4 = (case ServiceRecordUpdate.notes upd of
                      None \<Rightarrow> r3 | Some n \<Rightarrow> r3\<lparr>ServiceRecord.notes := Some n\<rparr>)
          in (Inr r4, s\<lparr>service_records := dict_set (service_records s) rid r4\<rparr>))"

subsection \<open>Reference predicates\<close>

text \<open>
  The serial-number format in the words of the validator's error message and of the data
  model: 8 to 20 characters, each an uppercase letter or a digit, and nothing else.
\<close>

definition serial_8_20_upper_alnum :: "string \<Rightarrow> bool" where
  "serial_8_20_upper_alnum v =
     (8 \<le> length v \<and> length v \<le> 20 \<and> list_all in_class_A_Z_0_9 v)"

text \<open>
  Listing by filters in the words of the interface description: a record is listed when
  it agrees with every filter that is supplied; a filter that is not supplied matches
  every record.
\<close>

definition matches_supplied_filters ::
  "string option \<Rightarrow> string option \<Rightarrow> ServiceStatus option \<Rightarrow> ServiceRecord \<Rightarrow> bool" where
  "matches_supplied_filters sn cid st r =
     ((case sn of None \<Rightarrow> True | Some x \<Rightarrow> ServiceRecord.serial_number r = x)
      \<and> (case cid of None \<Rightarrow> True | Some x \<Rightarrow> ServiceRecord.customer_id r = x)
      \<and> (case st of None \<Rightarrow> True | Some x \<Rightarrow> ServiceRecord.status r = status_value x))"

definition list_service_records_spec ::
  "CRMData \<Rightarrow> string option \<Rightarrow> string option \<Rightarrow> ServiceStatus option \<Rightarrow> ServiceRecord list" where
  "list_service_records_spec s sn cid st =
     filter (matches_supplied_filters sn cid st) (dict_values (service_records s))"

text \<open>
  The records that the loop of \<open>get_service_records\<close> appends: those for which none of
  its three \<open>continue\<close> conditions holds.
\<close>

definition loop_appends ::
  "string option \<Rightarrow> string option \<Rightarrow> ServiceStatus option \<Rightarrow> ServiceRecord \<Rightarrow> bool" where
  "loop_appends sn cid st r =
     (\<not> (truthy sn \<and> Some (ServiceRecord.serial_number r) \<noteq> sn)
      \<and> \<not> (truthy cid \<and> Some (ServiceRecord.customer_id r) \<noteq> cid)
      \<and> \<not> (truthy (map_option status_value st)
             \<and> Some (ServiceRecord.status r) \<noteq> map_option status_value st))"

text \<open>The record ids \<open>SRV001\<close>, \<open>SRV002\<close>, ... in the order of their creation.\<close>

definition record_ids :: "nat \<Rightarrow> string list" where
  "record_ids n = map (\<lambda>i. ''SRV'' @ format_03d (Suc i)) [0 ..< n]"

lemmas sample_data_defs =
  crm_data_def customers_data_def products_data_def service_records_data_def

lemmas date_of_defs = date_of_def days_before_year_def days_before_month_def is_leap_def

section \<open>Properties\<close>

subsection \<open>The serial-number pattern\<close>

lemma re_match_serial_ex:
  "re_match_serial v \<longleftrightarrow>
     (\<exists>n. 8 \<le> n \<and> n \<le> 20 \<and> n \<le> length v
          \<and> list_all in_class_A_Z_0_9 (take n v) \<and> at_dollar (drop n v))"
  unfolding re_match_serial_def list_ex_iff set_upt by force

lemma drop_eq_singleton:
  "n \<le> length v \<Longrightarrow> drop n v = [c] \<longleftrightarrow> (v = take n v @ [c] \<and> length v = Suc n)"
  by (metis append_take_drop_id length_append_singleton length_take min.absorb2 same_append_eq)

text \<open>
  What the pattern accepts: the strings of the format, and those strings followed by one
  newline.
\<close>

lemma re_match_serial_iff:
  "re_match_serial v \<longleftrightarrow>
     serial_8_20_upper_alnum v \<or> (\<exists>w. v = w @ [CHR 0x0A] \<and> serial_8_20_upper_alnum w)"
proof
  assume "re_match_serial v"
  then obtain n where n: "8 \<le> n" "n \<le> 20" "n \<le> length v"
      "list_all in_class_A_Z_0_9 (take n v)" "at_dollar (drop n v)"
    by (auto simp: re_match_serial_ex)
  from n(5) consider "drop n v = []" | "drop n v = [CHR 0x0A]"
    by (auto simp: at_dollar_def)
  then show "serial_8_20_upper_alnum v \<or> (\<exists>w. v = w @ [CHR 0x0A] \<and> serial_8_20_upper_alnum w)"
  proof cases
    case 1
    with n have "length v = n" by simp
    with n show ?thesis by (simp add: serial_8_20_upper_alnum_def)
  next
    case 2
    with n(3) have "v = take n v @ [CHR 0x0A]" "length v = Suc n"
      by (simp_all add: drop_eq_singleton)
    moreover have "serial_8_20_upper_alnum (take n v)"
      using n by (simp add: serial_8_20_upper_alnum_def)
    ultimately show ?thesis by blast
  qed
next
  assume "serial_8_20_upper_alnum v \<or> (\<exists>w. v = w @ [CHR 0x0A] \<and> serial_8_20_upper_alnum w)"
  then show "re_match_serial v"
  proof
    assume "serial_8_20_upper_alnum v"
    then show ?thesis
      by (auto simp: re_match_serial_ex serial_8_20_upper_alnum_def at_dollar_def
               intro!: exI [of _ "length v"])
  next
    assume "\<exists>w. v = w @ [CHR 0x0A] \<and> serial_8_20_upper_alnum w"
    then obtain w where "v = w @ [CHR 0x0A]" "serial_8_20_upper_alnum w" by blast
    then show ?thesis
      by (auto simp: re_match_serial_ex serial_8_20_upper_alnum_def at_dollar_def
               intro!: exI [of _ "length w"])
  qed
qed

lemma validate_serial_number_accepts_format:
  "serial_8_20_upper_alnum v \<Longrightarrow> validate_serial_number v = Inr v"
  by (simp add: validate_serial_number_def re_match_serial_iff)

lemma validate_serial_number_rejects_iff:
  "validate_serial_number v
     = Inl (ValidationError ''Serial number must be 8-20 alphanumeric characters'')
   \<longleftrightarrow> \<not> serial_8_20_upper_alnum v
       \<and> \<not> (\<exists>w. v = w @ [CHR 0x0A] \<and> serial_8_20_upper_alnum w)"
  by (simp add: validate_serial_number_def re_match_serial_iff)

text \<open>
  Claim C8: a warranty query is rejected with a validation error (HTTP 422), before any
  store lookup, exactly when its serial number is not made of 8 to 20 uppercase letters
  or digits and nothing else.

  The validator does not do this for a serial number of the format followed by a newline:
  \<open>"SN20240001\n"\<close> has eleven characters, the last of them neither a letter nor a
  digit, and it passes the validator; the query goes on to the store lookup, which
  answers 404.
\<close>

theorem validate_serial_number_trailing_newline:
  "validate_serial_number (''SN20240001'' @ [CHR 0x0A]) = Inr (''SN20240001'' @ [CHR 0x0A])
   \<and> \<not> serial_8_20_upper_alnum (''SN20240001'' @ [CHR 0x0A])
   \<and> post_warranty_query EmailStr_plain crm_data (date_of 2024 8 16)
        (''SN20240001'' @ [CHR 0x0A]) None
       = Inl (HTTPException 404 ''Product not found'')"
proof -
  have ok: "serial_8_20_upper_alnum ''SN20240001''"
    by (simp add: serial_8_20_upper_alnum_def in_class_A_Z_0_9_def)
  then have m: "re_match_serial (''SN20240001'' @ [CHR 0x0A])"
    by (subst re_match_serial_iff) (intro disjI2 exI [of _ "''SN20240001''"] conjI refl)
  have "\<not> serial_8_20_upper_alnum (''SN20240001'' @ [CHR 0x0A])"
    by (simp add: serial_8_20_upper_alnum_def in_class_A_Z_0_9_def)
  moreover have "dict_get (products crm_data) (''SN20240001'' @ [CHR 0x0A]) = None"
    by (simp add: sample_data_defs)
  ultimately show ?thesis
    using m
    by (simp add: validate_serial_number_def post_warranty_query_def parse_WarrantyQuery_def
          validate_customer_email_def query_warranty_def)
qed

subsection \<open>Warranty queries\<close>

lemma status_texts_distinct:
  "distinct [status_text_expired, status_text_expiring, status_text_valid]"
  by (simp add: status_text_expired_def status_text_expiring_def status_text_valid_def)

text \<open>
  \<open>EmailStr_plain\<close> at the addresses of the examples; the addresses of the sample
  customers are their own normalised forms.
\<close>

lemma EmailStr_plain_examples:
  "EmailStr_plain ''zhang.ming@EXAMPLE.COM'' = Inr ''zhang.ming@example.com''"
  "EmailStr_plain ''zhang.ming@example.com'' = Inr ''zhang.ming@example.com''"
  "EmailStr_plain ''Zhang.Ming@example.com'' = Inr ''Zhang.Ming@example.com''"
  "EmailStr_plain [] = Inl (ValidationError ''value is not a valid email address'')"
  "EmailStr_plain ''zhang.ming'' = Inl (ValidationError ''value is not a valid email address'')"
  by (simp_all add: EmailStr_plain_def plain_local_part_def plain_domain_def plain_labels_def
        is_letter_or_digit_def is_upper_def ascii_lower_def)

lemma sample_emails_normalised:
  "list_all (\<lambda>c. EmailStr_plain (email c) = Inr (email c)) (dict_values (customers crm_data))"
  by (simp add: sample_data_defs customer_CUST001_def customer_CUST002_def customer_CUST003_def
        customer_CUST004_def customer_CUST005_def
        EmailStr_plain_def plain_local_part_def plain_domain_def plain_labels_def
        is_letter_or_digit_def is_upper_def ascii_lower_def)

text \<open>
  Claim C1, as stated: for a product present in the store, \<open>query_warranty\<close> gives the
  status "expired", "expiring soon" or "valid" by three-way bucketing of the warranty end
  date against the current date. The bucketing holds, the words do not: the status text
  is one of three literals of the service, written in Chinese. For the sample product
  \<open>SN20240002\<close>, whose warranty ends on 2024-08-15, the query of 2024-08-16 returns
  the fifteen UTF-8 bytes of the first literal ("warranty has expired"), not the word
  \<open>expired\<close>.
\<close>

theorem query_warranty_status_words_counterexample:
  "query_warranty crm_data (date_of 2024 8 16)
       \<lparr>WarrantyQuery.serial_number = ''SN20240002'', customer_email = None\<rparr>
     = Inr \<lparr>WarrantyResponse.product_name = product_name_PROD002,
            WarrantyResponse.serial_number = ''SN20240002'',
            customer_name = name_CUST001,
            WarrantyResponse.purchase_date = date_of 2023 8 15,
            WarrantyResponse.warranty_end_date = date_of 2024 8 15,
            WarrantyResponse.warranty_type = ''extended'',
            status_text =
              [CHR 0xE4, CHR 0xBF, CHR 0x9D, CHR 0xE4, CHR 0xBF, CHR 0xAE, CHR 0xE5, CHR 0xB7,
               CHR 0xB2, CHR 0xE8, CHR 0xBF, CHR 0x87, CHR 0xE6, CHR 0x9C, CHR 0x9F]\<rparr>
   \<and> [CHR 0xE4, CHR 0xBF, CHR 0x9D, CHR 0xE4, CHR 0xBF, CHR 0xAE, CHR 0xE5, CHR 0xB7,
      CHR 0xB2, CHR 0xE8, CHR 0xBF, CHR 0x87, CHR 0xE6, CHR 0x9C, CHR 0x9F] \<noteq> ''expired''"
  by (simp add: query_warranty_def warranty_status_text_def sample_data_defs truthy_def
        product_PROD002_def customer_CUST001_def date_of_defs status_text_expired_def)

text \<open>
  Claim C1, amended: for a product present in the store, \<open>query_warranty\<close> on its
  serial number answers with a response exactly when the owning customer exists and the
  e-mail check, if one is made, succeeds, and the status text of the response is one of
  the service's three literals, chosen in this order: the first ("warranty has expired",
  bytes E4 BF 9D E4 BF AE E5 B7 B2 E8 BF 87 E6 9C 9F) if the warranty end date is before
  today; else the second ("warranty about to expire", bytes E4 BF 9D E4 BF AE E5 8D B3 E5
  B0 86 E5 88 B0 E6 9C 9F) if the difference in days is from 0 to 30; otherwise the third
  ("warranty valid", bytes E4 BF 9D E4 BF AE E6 9C 89 E6 95 88).
\<close>

theorem query_warranty_status_text:
  assumes "dict_get (products s) (WarrantyQuery.serial_number q) = Some p"
  shows "query_warranty s today q = Inr resp \<longleftrightarrow>
           (\<exists>c. dict_get (customers s) (Product.customer_id p) = Some c
              \<and> (truthy (customer_email q) \<longrightarrow> customer_email q = Some (email c))
              \<and> resp = \<lparr>WarrantyResponse.product_name = Product.product_name p,
                        WarrantyResponse.serial_number = Product.serial_number p,
                        customer_name = name c,
                        WarrantyResponse.purchase_date = Product.purchase_date p,
                        WarrantyResponse.warranty_end_date = Product.warranty_end_date p,
                        WarrantyResponse.warranty_type = Product.warranty_type p,
                        status_text =
                          (if Product.warranty_end_date p < today
                           then [CHR 0xE4, CHR 0xBF, CHR 0x9D, CHR 0xE4, CHR 0xBF, CHR 0xAE,
                                 CHR 0xE5, CHR 0xB7, CHR 0xB2, CHR 0xE8, CHR 0xBF, CHR 0x87,
                                 CHR 0xE6, CHR 0x9C, CHR 0x9F]
                           else if 0 \<le> Product.warranty_end_date p - today
                                   \<and> Product.warranty_end_date p - today \<le> 30
                           then [CHR 0xE4, CHR 0xBF, CHR 0x9D, CHR 0xE4, CHR 0xBF, CHR 0xAE,
                                 CHR 0xE5, CHR 0x8D, CHR 0xB3, CHR 0xE5, CHR 0xB0, CHR 0x86,
                                 CHR 0xE5, CHR 0x88, CHR 0xB0, CHR 0xE6, CHR 0x9C, CHR 0x9F]
                           else [CHR 0xE4, CHR 0xBF, CHR 0x9D, CHR 0xE4, CHR 0xBF, CHR 0xAE,
                                 CHR 0xE6, CHR 0x9C, CHR 0x89, CHR 0xE6, CHR 0x95,
                                 CHR 0x88])\<rparr>)"
  using assms
  unfolding query_warranty_def warranty_status_text_def
    status_text_expired_def status_text_expiring_def status_text_valid_def
  by (auto split: option.splits)

theorem query_warranty_status_text_witness:
  "query_warranty crm_data (date_of 2024 8 16)
       \<lparr>WarrantyQuery.serial_number = ''SN20240002'', customer_email = None\<rparr>
     = Inr \<lparr>WarrantyResponse.product_name = product_name_PROD002,
            WarrantyResponse.serial_number = ''SN20240002'',
            customer_name = name_CUST001,
            WarrantyResponse.purchase_date = date_of 2023 8 15,
            WarrantyResponse.warranty_end_date = date_of 2024 8 15,
            WarrantyResponse.warranty_type = ''extended'',
            status_text =
              [CHR 0xE4, CHR 0xBF, CHR 0x9D, CHR 0xE4, CHR 0xBF, CHR 0xAE, CHR 0xE5, CHR 0xB7,
               CHR 0xB2, CHR 0xE8, CHR 0xBF, CHR 0x87, CHR 0xE6, CHR 0x9C, CHR 0x9F]\<rparr>
   \<and> query_warranty crm_data (date_of 2024 7 16)
       \<lparr>WarrantyQuery.serial_number = ''SN20240002'', customer_email = None\<rparr>
     = Inr \<lparr>WarrantyResponse.product_name = product_name_PROD002,
            WarrantyResponse.serial_number = ''SN20240002'',
            customer_name = name_CUST001,
            WarrantyResponse.purchase_date = date_of 2023 8 15,
            WarrantyResponse.warranty_end_date = date_of 2024 8 15,
            WarrantyResponse.warranty_type = ''extended'',
            status_text =
              [CHR 0xE4, CHR 0xBF, CHR 0x9D, CHR 0xE4, CHR 0xBF, CHR 0xAE, CHR 0xE5, CHR 0x8D,
               CHR 0xB3, CHR 0xE5, CHR 0xB0, CHR 0x86, CHR 0xE5, CHR 0x88, CHR 0xB0, CHR 0xE6,
               CHR 0x9C, CHR 0x9F]\<rparr>
   \<and> query_warranty crm_data (date_of 2024 7 15)
       \<lparr>WarrantyQuery.serial_number = ''SN20240002'', customer_email = None\<rparr>
     = Inr \<lparr>WarrantyResponse.product_name = product_name_PROD002,
            WarrantyResponse.serial_number = ''SN20240002'',
            customer_name = name_CUST001,
            WarrantyResponse.purchase_date = date_of 2023 8 15,
            WarrantyResponse.warranty_end_date = date_of 2024 8 15,
            WarrantyResponse.warranty_type = ''extended'',
            status_text =
              [CHR 0xE4, CHR 0xBF, CHR 0x9D, CHR 0xE4, CHR 0xBF, CHR 0xAE, CHR 0xE6, CHR 0x9C,
               CHR 0x89, CHR 0xE6, CHR 0x95, CHR 0x88]\<rparr>"
proof -
  let ?q = "\<lparr>WarrantyQuery.serial_number = ''SN20240002'', customer_email = None\<rparr>"
  have p: "dict_get (products crm_data) (WarrantyQuery.serial_number ?q) = Some product_PROD002"
    by (simp add: sample_data_defs)
  show ?thesis
    using query_warranty_status_text [OF p, of "date_of 2024 8 16"]
          query_warranty_status_text [OF p, of "date_of 2024 7 16"]
          query_warranty_status_text [OF p, of "date_of 2024 7 15"]
    by (simp add: sample_data_defs truthy_def product_PROD002_def customer_CUST001_def
          date_of_defs)
qed

text \<open>
  Claim C4, as stated: with a customer e-mail supplied for a present serial number,
  \<open>query_warranty\<close> fails with 403 exactly when the supplied address is not an exact,
  case-sensitive match of the owner's address. It fails on the letter case of the domain:
  the request carries the address in the normalised form that \<open>EmailStr\<close> gives it, so
  \<open>zhang.ming@EXAMPLE.COM\<close>, which differs from the owner's
  \<open>zhang.ming@example.com\<close>, is answered with the warranty information.
\<close>

theorem post_warranty_query_domain_case_counterexample:
  "post_warranty_query EmailStr_plain crm_data (date_of 2024 8 16) ''SN20240001''
       (Some ''zhang.ming@EXAMPLE.COM'')
     = Inr \<lparr>WarrantyResponse.product_name = product_name_PROD001,
            WarrantyResponse.serial_number = ''SN20240001'',
            customer_name = name_CUST001,
            WarrantyResponse.purchase_date = date_of 2023 12 10,
            WarrantyResponse.warranty_end_date = date_of 2025 12 10,
            WarrantyResponse.warranty_type = ''standard'',
            status_text = status_text_valid\<rparr>
   \<and> map_option email (dict_get (customers crm_data) (Product.customer_id product_PROD001))
       = Some ''zhang.ming@example.com''
   \<and> ''zhang.ming@example.com'' \<noteq> ''zhang.ming@EXAMPLE.COM''"
proof -
  have m: "re_match_serial ''SN20240001''"
    by (simp add: re_match_serial_iff serial_8_20_upper_alnum_def in_class_A_Z_0_9_def)
  show ?thesis
    by (simp add: post_warranty_query_def parse_WarrantyQuery_def validate_customer_email_def
          validate_serial_number_def m EmailStr_plain_examples query_warranty_def
          warranty_status_text_def sample_data_defs truthy_def product_PROD001_def
          customer_CUST001_def date_of_defs)
qed

text \<open>
  Claim C4, amended: a warranty query fails with 404 for every serial number that passes
  the pattern and is absent from the product collection, provided its customer e-mail
  is left out or is accepted by \<open>EmailStr\<close>. With the serial number of a present
  product and a customer e-mail that \<open>EmailStr\<close> accepts, it fails with 403 exactly when
  no owning customer exists whose address equals, character for character, the
  normalised form of the supplied address. With a customer e-mail that \<open>EmailStr\<close>
  rejects it fails with a validation error (422). This holds for every behaviour of the
  \<open>EmailStr\<close> step that never yields an empty address.
\<close>

theorem post_warranty_query_not_found_forbidden:
  "(re_match_serial sn \<and> dict_get (products s) sn = None
      \<and> (em = None \<or> (\<exists>raw v. em = Some raw \<and> email_str raw = Inr v)) \<longrightarrow>
      post_warranty_query email_str s today sn em = Inl (HTTPException 404 ''Product not found''))
   \<and> (\<forall>p raw v. re_match_serial sn \<and> dict_get (products s) sn = Some p
          \<and> email_str raw = Inr v \<and> v \<noteq> [] \<longrightarrow>
        (post_warranty_query email_str s today sn (Some raw)
           = Inl (HTTPException 403 ''Customer email verification failed'')
         \<longleftrightarrow> \<not> (\<exists>c. dict_get (customers s) (Product.customer_id p) = Some c \<and> email c = v)))
   \<and> (\<forall>raw e. email_str raw = Inl e \<longrightarrow>
        (\<exists>errors. post_warranty_query email_str s today sn (Some raw)
                    = Inl (RequestValidationError errors)))"
  by (auto simp: post_warranty_query_def parse_WarrantyQuery_def validate_customer_email_def
        validate_serial_number_def query_warranty_def truthy_def
      split: option.splits sum.splits)

theorem post_warranty_query_not_found_forbidden_witness:
  "post_warranty_query EmailStr_plain crm_data (date_of 2024 8 16) ''SN99999999'' None
     = Inl (HTTPException 404 ''Product not found'')
   \<and> post_warranty_query EmailStr_plain crm_data (date_of 2024 8 16) ''SN20240001''
        (Some ''Zhang.Ming@example.com'')
     = Inl (HTTPException 403 ''Customer email verification failed'')
   \<and> post_warranty_query EmailStr_plain crm_data (date_of 2024 8 16) ''SN20240001''
        (Some ''zhang.ming@EXAMPLE.COM'')
     \<noteq> Inl (HTTPException 403 ''Customer email verification failed'')
   \<and> (\<exists>errors. post_warranty_query EmailStr_plain crm_data (date_of 2024 8 16) ''SN20240001''
                  (Some ''zhang.ming'') = Inl (RequestValidationError errors))"
proof -
  note t = post_warranty_query_not_found_forbidden [of _ crm_data _ EmailStr_plain "date_of 2024 8 16"]
  have m: "re_match_serial ''SN99999999''" "re_match_serial ''SN20240001''"
    by (simp_all add: re_match_serial_iff serial_8_20_upper_alnum_def in_class_A_Z_0_9_def)
  have a: "dict_get (products crm_data) ''SN99999999'' = None"
    by (simp add: sample_data_defs)
  have p: "dict_get (products crm_data) ''SN20240001'' = Some product_PROD001"
    by (simp add: sample_data_defs)
  have c: "dict_get (customers crm_data) (Product.customer_id product_PROD001)
             = Some customer_CUST001"
    by (simp add: sample_data_defs product_PROD001_def)
  have e: "email customer_CUST001 = ''zhang.ming@example.com''"
    by (simp add: customer_CUST001_def)
  have nf: "post_warranty_query EmailStr_plain crm_data (date_of 2024 8 16) ''SN99999999'' None
              = Inl (HTTPException 404 ''Product not found'')"
    using t [of "''SN99999999''" None, THEN conjunct1] m a
    by simp
  have fb: "post_warranty_query EmailStr_plain crm_data (date_of 2024 8 16) ''SN20240001''
              (Some ''Zhang.Ming@example.com'')
            = Inl (HTTPException 403 ''Customer email verification failed'')"
    using t [of "''SN20240001''" None, THEN conjunct2, THEN conjunct1, rule_format,
             of product_PROD001 "''Zhang.Ming@example.com''" "''Zhang.Ming@example.com''"]
          m p c e
    by (simp add: EmailStr_plain_examples)
  have ok: "post_warranty_query EmailStr_plain crm_data (date_of 2024 8 16) ''SN20240001''
              (Some ''zhang.ming@EXAMPLE.COM'')
            \<noteq> Inl (HTTPException 403 ''Customer email verification failed'')"
    using t [of "''SN20240001''" None, THEN conjunct2, THEN conjunct1, rule_format,
             of product_PROD001 "''zhang.ming@EXAMPLE.COM''" "''zhang.ming@example.com''"]
          m p c e
    by (simp add: EmailStr_plain_examples)
  have bad: "\<exists>errors. post_warranty_query EmailStr_plain crm_data (date_of 2024 8 16)
               ''SN20240001'' (Some ''zhang.ming'') = Inl (RequestValidationError errors)"
    using t [of "''SN20240001''" None, THEN conjunct2, THEN conjunct2, rule_format,
             of "''zhang.ming''"]
    by (simp add: EmailStr_plain_examples)
  from nf fb ok bad show ?thesis by (intro conjI)
qed

subsection \<open>Creating service records\<close>

lemma decimal_length_pos: "Suc 0 \<le> length (decimal n)"
  by (subst decimal.simps) simp

lemma decimal_lt_10: "n < 10 \<Longrightarrow> decimal n = [digit_char n]"
  by (subst decimal.simps) simp

lemma decimal_lt_100:
  "10 \<le> n \<Longrightarrow> n < 100 \<Longrightarrow> decimal n = [digit_char (n div 10), digit_char (n mod 10)]"
  by (subst decimal.simps) (simp add: decimal_lt_10)

lemma decimal_lt_1000:
  "100 \<le> n \<Longrightarrow> n < 1000 \<Longrightarrow>
     decimal n = [digit_char (n div 100), digit_char (n div 10 mod 10), digit_char (n mod 10)]"
proof -
  assume n: "100 \<le> n" "n < 1000"
  have d: "n div 10 div 10 = n div 100"
    by (simp add: div_mult2_eq [symmetric])
  from n have "10 \<le> n div 10" "n div 10 < 100"
    by simp_all
  then have "decimal (n div 10) = [digit_char (n div 100), digit_char (n div 10 mod 10)]"
    by (simp add: decimal_lt_100 d)
  with n show ?thesis
    by (subst decimal.simps) simp
qed

lemma decimal_length_ge_1000: "1000 \<le> n \<Longrightarrow> 4 \<le> length (decimal n)"
proof -
  assume n: "1000 \<le> n"
  then have ge: "\<not> n < 10" "\<not> n div 10 < 10" "\<not> n div 10 div 10 < 10"
    by simp_all
  have "decimal n = decimal (n div 10) @ [digit_char (n mod 10)]"
    using ge(1) by (subst decimal.simps) simp
  moreover have "decimal (n div 10) = decimal (n div 10 div 10) @ [digit_char (n div 10 mod 10)]"
    using ge(2) by (subst decimal.simps) simp
  moreover have "decimal (n div 10 div 10) =
      decimal (n div 10 div 10 div 10) @ [digit_char (n div 10 div 10 mod 10)]"
    using ge(3) by (subst decimal.simps) simp
  ultimately show ?thesis
    using decimal_length_pos [of "n div 10 div 10 div 10"] by simp
qed

lemma digit_char_0: "digit_char 0 = CHR ''0''"
  by (simp add: digit_char_def)

lemma replicate_two: "replicate 2 c = [c, c]"
  by (simp add: numeral_2_eq_2)

lemma replicate_one: "replicate 1 c = [c]"
  by simp

text \<open>Below 1000 the format is exactly three digits; from 1000 on nothing is padded.\<close>

lemma format_03d_three_digits:
  "n < 1000 \<Longrightarrow>
     format_03d n = [digit_char (n div 100), digit_char (n div 10 mod 10), digit_char (n mod 10)]"
proof -
  assume n: "n < 1000"
  consider "n < 10" | "10 \<le> n" "n < 100" | "100 \<le> n"
    by linarith
  then show ?thesis
  proof cases
    case 1
    then have "n div 100 = 0" "n div 10 mod 10 = 0" "n mod 10 = n"
      by simp_all
    with 1 show ?thesis
      by (simp add: format_03d_def decimal_lt_10 replicate_two digit_char_0)
  next
    case 2
    then have "n div 100 = 0" "n div 10 mod 10 = n div 10"
      by simp_all
    with 2 show ?thesis
      by (simp add: format_03d_def decimal_lt_100 replicate_one digit_char_0)
  next
    case 3
    with n show ?thesis
      by (simp add: format_03d_def decimal_lt_1000)
  qed
qed

lemma format_03d_wide: "1000 \<le> n \<Longrightarrow> format_03d n = decimal n"
  using decimal_length_ge_1000 [of n] by (simp add: format_03d_def)

text \<open>The digits read back as the number.\<close>

lemma digit_cases:
  "d < 10 \<Longrightarrow> d = 0 \<or> d = 1 \<or> d = 2 \<or> d = 3 \<or> d = 4 \<or> d = 5 \<or> d = 6 \<or> d = 7 \<or> d = 8 \<or> d = (9::nat)"
  by arith

lemma of_char_digit_char:
  assumes "d < 10"
  shows "(of_char (digit_char d) :: nat) = 48 + d"
  using digit_cases [OF assms] by (elim disjE) (simp_all add: digit_char_def)

lemma digit_char_is_digit:
  assumes "d < 10"
  shows "digit_char d \<in> set ''0123456789''"
  using digit_cases [OF assms] by (elim disjE) (simp_all add: digit_char_def)

lemma digit_char_nonzero:
  assumes "0 < d" and "d < 10"
  shows "digit_char d \<noteq> CHR ''0''"
  using digit_cases [OF assms(2)] assms(1) by (elim disjE) (simp_all add: digit_char_def)

lemma decimal_value:
  "foldl (\<lambda>a c. 10 * a + ((of_char c :: nat) - 48)) 0 (decimal n) = n"
proof (induction n rule: decimal.induct)
  case (1 n)
  show ?case
  proof (cases "n < 10")
    case True
    then show ?thesis
      by (simp add: decimal_lt_10 of_char_digit_char)
  next
    case False
    then have "decimal n = decimal (n div 10) @ [digit_char (n mod 10)]"
      by (subst decimal.simps) simp
    with False 1 show ?thesis
      by (simp add: of_char_digit_char)
  qed
qed

lemma decimal_digits: "list_all (\<lambda>c. c \<in> set ''0123456789'') (decimal n)"
proof (induction n rule: decimal.induct)
  case (1 n)
  show ?case
  proof (cases "n < 10")
    case True
    then show ?thesis
      using digit_char_is_digit [of n] by (simp add: decimal_lt_10)
  next
    case False
    then have "decimal n = decimal (n div 10) @ [digit_char (n mod 10)]"
      by (subst decimal.simps) simp
    with False 1 show ?thesis
      using digit_char_is_digit [of "n mod 10"] by simp
  qed
qed

lemma decimal_no_leading_zero: "0 < n \<Longrightarrow> hd (decimal n) \<noteq> CHR ''0''"
proof (induction n rule: decimal.induct)
  case (1 n)
  show ?case
  proof (cases "n < 10")
    case True
    with 1(2) show ?thesis
      by (simp add: decimal_lt_10 digit_char_nonzero)
  next
    case False
    then have eq: "decimal n = decimal (n div 10) @ [digit_char (n mod 10)]"
      by (subst decimal.simps) simp
    from False have "0 < n div 10" by simp
    with False 1(1) have "hd (decimal (n div 10)) \<noteq> CHR ''0''" by simp
    moreover have "decimal (n div 10) \<noteq> []"
      using decimal_length_pos [of "n div 10"] by auto
    ultimately show ?thesis
      by (simp add: eq)
  qed
qed

lemma zeros_value:
  "foldl (\<lambda>a c. 10 * a + ((of_char c :: nat) - 48)) 0 (replicate k CHR ''0'') = 0"
  by (induction k) simp_all

lemma format_03d_value:
  "foldl (\<lambda>a c. 10 * a + ((of_char c :: nat) - 48)) 0 (format_03d n) = n"
  by (simp add: format_03d_def zeros_value decimal_value)

lemma format_03d_inj: "format_03d a = format_03d b \<Longrightarrow> a = b"
  by (metis format_03d_value)

text \<open>Starting from the sample data, every new record id is fresh.\<close>

lemma record_ids_Suc: "record_ids (Suc n) = record_ids n @ [''SRV'' @ format_03d (Suc n)]"
  by (simp add: record_ids_def)

lemma record_ids_fresh: "''SRV'' @ format_03d (Suc n) \<notin> set (record_ids n)"
  by (auto simp: record_ids_def dest: format_03d_inj)

lemma length_record_ids: "length (record_ids n) = n"
  by (simp add: record_ids_def)

lemma create_service_record_keys:
  assumes "map fst (service_records s) = record_ids n"
      and "dict_get (products s) (ServiceRecordCreate.serial_number req) = Some p"
  shows "map fst (service_records (snd (create_service_record s req))) = record_ids (Suc n)
         \<and> products (snd (create_service_record s req)) = products s"
proof -
  from assms(1) have len: "length (service_records s) = n"
    by (metis length_map length_record_ids)
  from assms record_ids_fresh [of n] show ?thesis
    by (simp add: create_service_record_def Let_def len update_keys record_ids_Suc)
qed

lemma sample_record_ids: "map fst (service_records crm_data) = record_ids 2"
  by (simp add: sample_data_defs record_ids_def numeral_2_eq_2 format_03d_three_digits
        digit_char_def)

lemma sample_create_present:
  "dict_get (products crm_data) (ServiceRecordCreate.serial_number sample_create)
     = Some product_PROD001"
  by (simp add: sample_data_defs sample_create_def)

lemma create_many_keys:
  "map fst (service_records (create_many k sample_create crm_data)) = record_ids (2 + k)
   \<and> products (create_many k sample_create crm_data) = products crm_data"
proof (induction k)
  case 0
  then show ?case by (simp add: sample_record_ids)
next
  case (Suc k)
  then have keys: "map fst (service_records (create_many k sample_create crm_data))
                     = record_ids (2 + k)"
    and prods: "products (create_many k sample_create crm_data) = products crm_data"
    by simp_all
  from prods sample_create_present
  have "dict_get (products (create_many k sample_create crm_data))
          (ServiceRecordCreate.serial_number sample_create) = Some product_PROD001"
    by simp
  from create_service_record_keys [OF keys this] prods show ?case
    by simp
qed

lemma create_many_length:
  "length (service_records (create_many k sample_create crm_data)) = 2 + k"
  by (metis create_many_keys length_map length_record_ids)

lemma create_service_record_id:
  "dict_get (products s) (ServiceRecordCreate.serial_number req) = Some p \<Longrightarrow>
     map_sum id record_id (fst (create_service_record s req))
       = Inr (''SRV'' @ format_03d (length (service_records s) + 1))"
  by (simp add: create_service_record_def Let_def)

lemma format_03d_1000: "format_03d 1000 = ''1000''"
proof -
  have "decimal 1000 = decimal 100 @ [digit_char 0]"
    by (subst decimal.simps) simp
  moreover have "decimal 100 = [digit_char 1, digit_char 0, digit_char 0]"
    using decimal_lt_1000 [of 100] by simp
  ultimately show ?thesis
    by (simp add: format_03d_wide digit_char_def)
qed

text \<open>
  Claim C2, as stated: the \<open>record_id\<close> of a created record is "SRV" followed by the
  zero-padded three-digit value of the number of service records plus one. It fails once
  that number reaches 1000: after 997 successful creations on the sample store there are
  999 records, and the next record gets the id \<open>SRV1000\<close>, with four digits.
\<close>

theorem create_service_record_four_digits_counterexample:
  "map_sum id record_id
     (fst (create_service_record (create_many 997 sample_create crm_data) sample_create))
     = Inr ''SRV1000''
   \<and> length (drop 3 ''SRV1000'') = 4"
proof -
  have "dict_get (products (create_many 997 sample_create crm_data))
          (ServiceRecordCreate.serial_number sample_create) = Some product_PROD001"
    using create_many_keys [of 997] sample_create_present by simp
  from create_service_record_id [OF this] show ?thesis
    by (simp add: create_many_length format_03d_1000)
qed

text \<open>
  Claim C2, amended: for a serial number present in the product collection,
  \<open>create_service_record\<close> returns and inserts a record whose \<open>record_id\<close> is "SRV"
  followed by the decimal digits of the current number of service records plus one:
  exactly three digits, padded with zeros on the left, when that number is below 1000,
  and all its digits (four or more, no leading zero) from 1000 on. Its status is
  "scheduled", its \<open>customer_id\<close> is the product's owner, its \<open>actual_duration\<close> and
  \<open>notes\<close> are \<open>None\<close>, and the other fields are the request's. No other entry and
  no other collection changes.
\<close>

theorem create_service_record_scheduled:
  assumes "dict_get (products s) (ServiceRecordCreate.serial_number req) = Some p"
  shows "\<exists>r s'. create_service_record s req = (Inr r, s')
           \<and> dict_get (service_records s') (record_id r) = Some r
           \<and> (length (service_records s) + 1 < 1000 \<longrightarrow>
                record_id r = ''SRV'' @
                  [''0123456789'' ! ((length (service_records s) + 1) div 100),
                   ''0123456789'' ! ((length (service_records s) + 1) div 10 mod 10),
                   ''0123456789'' ! ((length (service_records s) + 1) mod 10)])
           \<and> (1000 \<le> length (service_records s) + 1 \<longrightarrow>
                (\<exists>ds. record_id r = ''SRV'' @ ds \<and> 4 \<le> length ds
                   \<and> list_all (\<lambda>c. c \<in> set ''0123456789'') ds
                   \<and> hd ds \<noteq> CHR ''0''
                   \<and> foldl (\<lambda>a c. 10 * a + ((of_char c :: nat) - 48)) 0 ds
                       = length (service_records s) + 1))
           \<and> ServiceRecord.status r = ''scheduled''
           \<and> ServiceRecord.customer_id r = Product.customer_id p
           \<and> ServiceRecord.actual_duration r = None
           \<and> ServiceRecord.notes r = None
           \<and> ServiceRecord.serial_number r = ServiceRecordCreate.serial_number req
           \<and> ServiceRecord.service_date r = ServiceRecordCreate.service_date req
           \<and> ServiceRecord.service_type r = ServiceRecordCreate.service_type req
           \<and> ServiceRecord.description r = ServiceRecordCreate.description req
           \<and> ServiceRecord.technician r = ServiceRecordCreate.technician req
           \<and> ServiceRecord.estimated_duration r = ServiceRecordCreate.estimated_duration req
           \<and> (\<forall>k. k \<noteq> record_id r \<longrightarrow>
                  dict_get (service_records s') k = dict_get (service_records s) k)
           \<and> customers s' = customers s \<and> products s' = products s"
proof -
  let ?n = "length (service_records s) + 1"
  have small: "?n < 1000 \<Longrightarrow> format_03d ?n =
      [''0123456789'' ! (?n div 100), ''0123456789'' ! (?n div 10 mod 10),
       ''0123456789'' ! (?n mod 10)]"
    using format_03d_three_digits [of ?n] by (simp add: digit_char_def)
  have wide: "1000 \<le> ?n \<Longrightarrow>
      4 \<le> length (format_03d ?n) \<and> list_all (\<lambda>c. c \<in> set ''0123456789'') (format_03d ?n)
      \<and> hd (format_03d ?n) \<noteq> CHR ''0''
      \<and> foldl (\<lambda>a c. 10 * a + ((of_char c :: nat) - 48)) 0 (format_03d ?n) = ?n"
    using decimal_length_ge_1000 [of ?n] decimal_digits [of ?n]
          decimal_no_leading_zero [of ?n] decimal_value [of ?n]
    by (simp add: format_03d_wide)
  from assms small wide show ?thesis
    by (simp add: create_service_record_def Let_def update_conv')
qed

theorem create_service_record_scheduled_witness:
  "\<exists>r s'. create_service_record crm_data sample_create = (Inr r, s')
         \<and> record_id r = ''SRV003''
         \<and> ServiceRecord.status r = ''scheduled''
         \<and> ServiceRecord.customer_id r = ''CUST001''
         \<and> dict_get (service_records s') ''SRV003'' = Some r
         \<and> dict_get (service_records s') ''SRV001'' = Some record_SRV001"
proof -
  have len: "length (service_records crm_data) + 1 = 3"
    by (simp add: sample_data_defs)
  have old: "dict_get (service_records crm_data) ''SRV001'' = Some record_SRV001"
    by (simp add: sample_data_defs)
  have cid: "Product.customer_id product_PROD001 = ''CUST001''"
    by (simp add: product_PROD001_def)
  from create_service_record_scheduled [OF sample_create_present] show ?thesis
    unfolding len cid
    apply (elim exE conjE)
    subgoal for r s'
      apply (rule exI [of _ r], rule exI [of _ s'])
      apply (simp add: old)
      done
    done
qed

text \<open>
  Claim C5: for a serial number absent from the product collection,
  \<open>create_service_record\<close> fails with 404 and the store after the call is the store
  before it: no service record is added.
\<close>

theorem create_service_record_unknown_serial:
  assumes "dict_get (products s) (ServiceRecordCreate.serial_number req) = None"
  shows "create_service_record s req = (Inl (HTTPException 404 ''Product not found''), s)"
  using assms by (simp add: create_service_record_def)

theorem create_service_record_unknown_serial_witness:
  "create_service_record crm_data
     \<lparr>ServiceRecordCreate.serial_number = ''SN00000000'',
      ServiceRecordCreate.service_type = ''repair'',
      ServiceRecordCreate.description = ''no picture'',
      ServiceRecordCreate.technician = ''Wang'',
      ServiceRecordCreate.service_date = Datetime 2025 1 2 9 30,
      ServiceRecordCreate.estimated_duration = 90\<rparr>
   = (Inl (HTTPException 404 ''Product not found''), crm_data)"
proof -
  have "dict_get (products crm_data) ''SN00000000'' = None"
    by (simp add: sample_data_defs)
  then show ?thesis
    by (intro create_service_record_unknown_serial) simp
qed

subsection \<open>Listing service records\<close>

lemma filter_loop_filter:
  "filter_loop sn cid st rs acc = acc @ filter (loop_appends sn cid st) rs"
  by (induction rs arbitrary: acc) (auto simp: loop_appends_def)

lemma status_value_nonempty: "status_value x \<noteq> []"
  by (cases x) simp_all

lemma loop_appends_matches:
  "sn \<noteq> Some [] \<Longrightarrow> cid \<noteq> Some [] \<Longrightarrow>
     loop_appends sn cid st = matches_supplied_filters sn cid st"
  by (auto simp: loop_appends_def matches_supplied_filters_def truthy_def fun_eq_iff
        status_value_nonempty split: option.splits)

text \<open>
  Claim C6, as stated: for every combination of the optional filters,
  \<open>get_service_records\<close> returns exactly the records that satisfy every supplied filter.
  It fails for a filter supplied as the empty string: with \<open>serial_number = ""\<close> the
  sample store returns both of its records, and neither has an empty serial number.
\<close>

theorem get_service_records_empty_string_counterexample:
  "get_service_records crm_data (Some []) None None
     \<noteq> Inr (list_service_records_spec crm_data (Some []) None None)"
  by (simp add: get_service_records_def list_service_records_spec_def sample_data_defs
        matches_supplied_filters_def truthy_def record_SRV001_def record_SRV002_def)

text \<open>
  Claim C6, amended: for every combination of the optional filters in which neither
  \<open>serial_number\<close> nor \<open>customer_id\<close> is supplied as the empty string,
  \<open>get_service_records\<close> returns exactly the records that satisfy every supplied filter,
  in the order of the collection, filters that are not supplied matching everything; the
  answer is a list also when no record matches, never an error.
\<close>

theorem get_service_records_nonempty_filters:
  assumes "sn \<noteq> Some []" and "cid \<noteq> Some []"
  shows "get_service_records s sn cid st = Inr (list_service_records_spec s sn cid st)"
  using assms
  by (simp add: get_service_records_def filter_loop_filter loop_appends_matches
        list_service_records_spec_def)

theorem get_service_records_nonempty_filters_witness:
  "get_service_records crm_data None (Some ''CUST001'') None = Inr [record_SRV001]
   \<and> get_service_records crm_data (Some ''SN20240003'') (Some ''CUST002'') (Some SCHEDULED)
       = Inr [record_SRV002]
   \<and> get_service_records crm_data None (Some ''CUST009'') None = Inr []"
proof -
  have a: "(None :: string option) \<noteq> Some []" "Some ''CUST001'' \<noteq> Some []"
          "Some ''SN20240003'' \<noteq> Some []" "Some ''CUST002'' \<noteq> Some []"
          "Some ''CUST009'' \<noteq> Some []"
    by simp_all
  show ?thesis
    unfolding get_service_records_nonempty_filters [OF a(1) a(2)]
              get_service_records_nonempty_filters [OF a(3) a(4)]
              get_service_records_nonempty_filters [OF a(1) a(5)]
    by (simp add: list_service_records_spec_def matches_supplied_filters_def sample_data_defs
          record_SRV001_def record_SRV002_def)
qed

text \<open>
  Claim C10: in \<open>get_service_records\<close> a \<open>serial_number\<close> or \<open>customer_id\<close> filter
  supplied as the empty string is treated exactly like a filter that is not supplied: it
  matches every record, not only the records whose field is empty.
\<close>

theorem get_service_records_empty_string_is_omitted:
  "get_service_records s (Some []) cid st = get_service_records s None cid st
   \<and> get_service_records s sn (Some []) st = get_service_records s sn None st
   \<and> get_service_records s (Some []) (Some []) None = Inr (dict_values (service_records s))"
  by (simp add: get_service_records_def filter_loop_filter loop_appends_def truthy_def
        cong: filter_cong)

subsection \<open>Purchases of a customer\<close>

text \<open>
  Claim C7: \<open>get_customer_purchases\<close> returns the products whose \<open>customer_id\<close> is the
  argument, in the order of the product collection, and fails with 404 exactly when that
  list is empty; the customer collection plays no part in the answer.
\<close>

theorem get_customer_purchases_filter:
  "get_customer_purchases s cid =
     (if [p \<leftarrow> dict_values (products s). Product.customer_id p = cid] = []
      then Inl (HTTPException 404 ''No purchases found for this customer'')
      else Inr [p \<leftarrow> dict_values (products s). Product.customer_id p = cid])
   \<and> (get_customer_purchases s cid
          = Inl (HTTPException 404 ''No purchases found for this customer'')
        \<longleftrightarrow> cid \<notin> Product.customer_id ` snd ` set (products s))
   \<and> get_customer_purchases (s\<lparr>customers := cs\<rparr>) cid = get_customer_purchases s cid"
proof -
  let ?ps = "[p \<leftarrow> dict_values (products s). Product.customer_id p = cid]"
  have "?ps = [] \<longleftrightarrow> cid \<notin> Product.customer_id ` snd ` set (products s)"
    by (auto simp: filter_empty_conv)
  then show ?thesis
    by (simp add: get_customer_purchases_def Let_def)
qed

lemma get_customer_purchases_sample:
  "get_customer_purchases crm_data ''CUST001'' = Inr [product_PROD001, product_PROD002]
   \<and> get_customer_purchases crm_data ''CUST009''
       = Inl (HTTPException 404 ''No purchases found for this customer'')"
  by (simp add: get_customer_purchases_def Let_def sample_data_defs
        product_PROD001_def product_PROD002_def product_PROD003_def product_PROD004_def
        product_PROD005_def product_PROD006_def product_PROD007_def product_PROD008_def
        product_PROD009_def product_PROD010_def)

subsection \<open>The collections stay dictionaries\<close>

text \<open>
  The keys of the sample collections are pairwise different, and the two writing handlers
  keep them so: the length of the association list is the \<open>len\<close> of the dictionary.
\<close>

lemma crm_data_distinct_keys:
  "distinct (map fst (customers crm_data)) \<and> distinct (map fst (products crm_data))
   \<and> distinct (map fst (service_records crm_data))"
  by (simp add: sample_data_defs)

lemma create_service_record_distinct_keys:
  "distinct (map fst (service_records s)) \<Longrightarrow>
     distinct (map fst (service_records (snd (create_service_record s req))))"
  by (simp add: create_service_record_def Let_def distinct_update split: option.splits)

lemma update_service_record_distinct_keys:
  "distinct (map fst (service_records s)) \<Longrightarrow>
     distinct (map fst (service_records (snd (update_service_record s rid upd))))"
  by (simp add: update_service_record_def Let_def distinct_update split: option.splits)

subsection \<open>Updating service records\<close>

lemma dict_set_present_keys:
  "dict_get d k = Some v \<Longrightarrow> map fst (dict_set d k v') = map fst d"
  by (simp add: update_keys) (metis domI dom_map_of_conv_image_fst)

text \<open>
  Claim C3: for an existing \<open>record_id\<close>, \<open>update_service_record\<close> sets exactly the
  fields among \<open>service_date\<close>, \<open>status\<close>, \<open>actual_duration\<close> and \<open>notes\<close> that the
  request supplies (that are not \<open>None\<close>) and leaves every other field of the record,
  every other record and the other collections as they were; any status may replace any
  status. For an absent \<open>record_id\<close> it fails with 404 and the store is unchanged.
\<close>

theorem update_service_record_partial:
  "(dict_get (service_records s) rid = None \<longrightarrow>
      update_service_record s rid upd = (Inl (HTTPException 404 ''Service record not found''), s))
   \<and> (\<forall>r. dict_get (service_records s) rid = Some r \<longrightarrow>
        (\<exists>r' s'. update_service_record s rid upd = (Inr r', s')
           \<and> ServiceRecord.service_date r' =
               (case ServiceRecordUpdate.service_date upd of
                  None \<Rightarrow> ServiceRecord.service_date r | Some d \<Rightarrow> d)
           \<and> ServiceRecord.status r' =
               (case ServiceRecordUpdate.status upd of
                  None \<Rightarrow> ServiceRecord.status r | Some st \<Rightarrow> status_value st)
           \<and> ServiceRecord.actual_duration r' =
               (case ServiceRecordUpdate.actual_duration upd of
                  None \<Rightarrow> ServiceRecord.actual_duration r | Some a \<Rightarrow> Some a)
           \<and> ServiceRecord.notes r' =
               (case ServiceRecordUpdate.notes upd of
                  None \<Rightarrow> ServiceRecord.notes r | Some n \<Rightarrow> Some n)
           \<and> record_id r' = record_id r
           \<and> ServiceRecord.serial_number r' = ServiceRecord.serial_number r
           \<and> ServiceRecord.customer_id r' = ServiceRecord.customer_id r
           \<and> ServiceRecord.service_type r' = ServiceRecord.service_type r
           \<and> ServiceRecord.description r' = ServiceRecord.description r
           \<and> ServiceRecord.technician r' = ServiceRecord.technician r
           \<and> ServiceRecord.estimated_duration r' = ServiceRecord.estimated_duration r
           \<and> dict_get (service_records s') rid = Some r'
           \<and> (\<forall>k. k \<noteq> rid \<longrightarrow> dict_get (service_records s') k = dict_get (service_records s) k)
           \<and> map fst (service_records s') = map fst (service_records s)
           \<and> customers s' = customers s \<and> products s' = products s))"
  by (auto simp: update_service_record_def Let_def update_conv' dict_set_present_keys
      split: option.splits)

theorem update_service_record_partial_witness:
  "update_service_record crm_data ''SRV999''
       \<lparr>ServiceRecordUpdate.service_date = None, ServiceRecordUpdate.status = Some COMPLETED,
        ServiceRecordUpdate.actual_duration = None, ServiceRecordUpdate.notes = None\<rparr>
     = (Inl (HTTPException 404 ''Service record not found''), crm_data)
   \<and> (\<exists>r' s'. update_service_record crm_data ''SRV001''
                 \<lparr>ServiceRecordUpdate.service_date = None,
                  ServiceRecordUpdate.status = Some SCHEDULED,
                  ServiceRecordUpdate.actual_duration = None,
                  ServiceRecordUpdate.notes = None\<rparr> = (Inr r', s')
         \<and> ServiceRecord.status r' = ''scheduled''
         \<and> ServiceRecord.service_date r' = Datetime 2024 1 15 10 0
         \<and> ServiceRecord.actual_duration r' = Some 110
         \<and> ServiceRecord.notes r' = Some notes_SRV001
         \<and> dict_get (service_records s') ''SRV002'' = Some record_SRV002)"
proof -
  let ?u = "\<lparr>ServiceRecordUpdate.service_date = None, ServiceRecordUpdate.status = Some COMPLETED,
             ServiceRecordUpdate.actual_duration = None, ServiceRecordUpdate.notes = None\<rparr>"
  let ?v = "\<lparr>ServiceRecordUpdate.service_date = None, ServiceRecordUpdate.status = Some SCHEDULED,
             ServiceRecordUpdate.actual_duration = None, ServiceRecordUpdate.notes = None\<rparr>"
  have a: "dict_get (service_records crm_data) ''SRV999'' = None"
    by (simp add: sample_data_defs)
  have b: "dict_get (service_records crm_data) ''SRV001'' = Some record_SRV001"
    by (simp add: sample_data_defs)
  have c: "dict_get (service_records crm_data) ''SRV002'' = Some record_SRV002"
    by (simp add: sample_data_defs)
  have first: "update_service_record crm_data ''SRV999'' ?u
                 = (Inl (HTTPException 404 ''Service record not found''), crm_data)"
    using update_service_record_partial [of crm_data "''SRV999''" ?u, THEN conjunct1] a
    by simp
  have second: "\<exists>r' s'. update_service_record crm_data ''SRV001'' ?v = (Inr r', s')
      \<and> ServiceRecord.status r' = ''scheduled''
      \<and> ServiceRecord.service_date r' = Datetime 2024 1 15 10 0
      \<and> ServiceRecord.actual_duration r' = Some 110
      \<and> ServiceRecord.notes r' = Some notes_SRV001
      \<and> dict_get (service_records s') ''SRV002'' = Some record_SRV002"
    using update_service_record_partial
            [of crm_data "''SRV001''" ?v, THEN conjunct2, rule_format, OF b]
    apply (elim exE conjE)
    subgoal for r' s'
      apply (rule exI [of _ r'], rule exI [of _ s'])
      apply (simp add: c record_SRV001_def)
      done
    done
  from first second show ?thesis
    by (intro conjI)
qed

text \<open>
  Claim C9: for an existing \<open>record_id\<close>, applying \<open>update_service_record\<close> a second
  time with the same request gives the same answer and the same store as applying it
  once.
\<close>

theorem update_service_record_idempotent:
  assumes "dict_get (service_records s) rid = Some r"
  shows "update_service_record (snd (update_service_record s rid upd)) rid upd
           = update_service_record s rid upd"
  using assms
  by (auto simp: update_service_record_def Let_def update_conv' split: option.splits)

theorem update_service_record_idempotent_witness:
  "update_service_record
       (snd (update_service_record crm_data ''SRV002''
          \<lparr>ServiceRecordUpdate.service_date = None, ServiceRecordUpdate.status = Some COMPLETED,
           ServiceRecordUpdate.actual_duration = Some 45,
           ServiceRecordUpdate.notes = Some ''done''\<rparr>))
       ''SRV002''
       \<lparr>ServiceRecordUpdate.service_date = None, ServiceRecordUpdate.status = Some COMPLETED,
        ServiceRecordUpdate.actual_duration = Some 45,
        ServiceRecordUpdate.notes = Some ''done''\<rparr>
     = update_service_record crm_data ''SRV002''
         \<lparr>ServiceRecordUpdate.service_date = None, ServiceRecordUpdate.status = Some COMPLETED,
          ServiceRecordUpdate.actual_duration = Some 45,
          ServiceRecordUpdate.notes = Some ''done''\<rparr>
   \<and> dict_get (service_records crm_data) ''SRV002'' = Some record_SRV002"
proof -
  have p: "dict_get (service_records crm_data) ''SRV002'' = Some record_SRV002"
    by (simp add: sample_data_defs)
  show ?thesis
    by (intro conjI update_service_record_idempotent [OF p] p)
qed

end
